theory Spec2Isabelle
  imports Complex_Main "HOL-Library.Multiset"
begin

section \<open>JavaScript numbers with their special values\<close>

text \<open>
  A \<open>number\<close> is a finite value, an infinity or \<open>NaN\<close>, with the arithmetic and the
  comparisons of IEEE 754 on them: \<open>NaN\<close> is contagious and every comparison with it
  is false, opposite infinities add up to \<open>NaN\<close>, zero times an infinity and zero
  divided by zero are \<open>NaN\<close>. The zero is the positive one (there is no \<open>-0\<close>).
\<close>

datatype number = Num real | PosInfinity | NegInfinity | NaN

fun jsNeg :: "number \<Rightarrow> number" where
  "jsNeg (Num x) = Num (- x)"
| "jsNeg PosInfinity = NegInfinity"
| "jsNeg NegInfinity = PosInfinity"
| "jsNeg NaN = NaN"

fun jsAdd :: "number \<Rightarrow> number \<Rightarrow> number" where
  "jsAdd NaN b = NaN"
| "jsAdd a NaN = NaN"
| "jsAdd (Num x) (Num y) = Num (x + y)"
| "jsAdd PosInfinity NegInfinity = NaN"
| "jsAdd NegInfinity PosInfinity = NaN"
| "jsAdd PosInfinity b = PosInfinity"
| "jsAdd a PosInfinity = PosInfinity"
| "jsAdd NegInfinity b = NegInfinity"
| "jsAdd a NegInfinity = NegInfinity"

definition jsSub :: "number \<Rightarrow> number \<Rightarrow> number" where
  "jsSub a b = jsAdd a (jsNeg b)"

fun jsMul :: "number \<Rightarrow> number \<Rightarrow> number" where
  "jsMul NaN b = NaN"
| "jsMul a NaN = NaN"
| "jsMul (Num x) (Num y) = Num (x * y)"
| "jsMul (Num x) b =
     (if x = 0 then NaN else if (0 < x) = (b = PosInfinity) then PosInfinity else NegInfinity)"
| "jsMul a (Num y) =
     (if y = 0 then NaN else if (0 < y) = (a = PosInfinity) then PosInfinity else NegInfinity)"
| "jsMul a b = (if a = b then PosInfinity else NegInfinity)"

fun jsDiv :: "number \<Rightarrow> number \<Rightarrow> number" where
  "jsDiv NaN b = NaN"
| "jsDiv a NaN = NaN"
| "jsDiv (Num x) (Num y) =
     (if y = 0 then (if 0 < x then PosInfinity else if x < 0 then NegInfinity else NaN)
      else Num (x / y))"
| "jsDiv (Num x) b = Num 0"
| "jsDiv a (Num y) = (if (0 \<le> y) = (a = PosInfinity) then PosInfinity else NegInfinity)"
| "jsDiv a b = NaN"

fun jsAbs :: "number \<Rightarrow> number" where
  "jsAbs (Num x) = Num \<bar>x\<bar>"
| "jsAbs NaN = NaN"
| "jsAbs a = PosInfinity"

fun jsGt :: "number \<Rightarrow> number \<Rightarrow> bool" where
  "jsGt NaN b = False"
| "jsGt a NaN = False"
| "jsGt (Num x) (Num y) = (y < x)"
| "jsGt PosInfinity b = (b \<noteq> PosInfinity)"
| "jsGt a PosInfinity = False"
| "jsGt a NegInfinity = (a \<noteq> NegInfinity)"
| "jsGt NegInfinity b = False"

definition jsGe :: "number \<Rightarrow> number \<Rightarrow> bool" where
  "jsGe a b = (jsGt a b \<or> (a = b \<and> a \<noteq> NaN))"

definition jsMax :: "number \<Rightarrow> number \<Rightarrow> number" where
  \<comment> \<open>\<open>Math.max(a, b)\<close>\<close>
  "jsMax a b = (if a = NaN \<or> b = NaN then NaN else if jsGt a b then a else b)"

section \<open>Data model (src/types/index.ts)\<close>

text \<open>
  The numbers the program reads (coordinates, provider values, material properties) are
  finite and are modelled as \<open>real\<close>: rounding and overflow are outside the model.
  The division in \<open>calculateSurfaceTemperature\<close> can leave the finite numbers (its
  divisor is zero at emissivity 0), so the surface temperature and everything
  \<open>assessRisks\<close> computes are of the type \<open>number\<close>, which has the special
  values of IEEE 754.

  \<open>GPSPoint\<close>, \<open>ClimateData\<close> and \<open>AnalysisResult\<close> share the field names
  \<open>latitude\<close>, \<open>longitude\<close> (and \<open>date\<close>); the records below share them by
  extension, so every field keeps the name it has in the source.
\<close>

record Coordinates =
  latitude :: real
  longitude :: real

record GPSPoint = Coordinates +
  timestamp :: string

record DatedCoordinates = Coordinates +
  date :: string

record ClimateData = DatedCoordinates +
  temperature :: real
  maxTemperature :: real
  solarRadiation :: real
  humidity :: real
  uvIndex :: real

record SurfaceProperties =
  albedo :: real
  emissivity :: real
  materialType :: string

datatype RiskLevel = Low | Medium | High

record RiskAssessment =
  crackingRisk :: RiskLevel
  agingRate :: number
  moistureStress :: RiskLevel

record AnalysisResult = DatedCoordinates +
  surfaceTemperature :: number
  emcAverage :: real
  emcPeak :: real
  cumulativeUV :: real
  riskAssessment :: RiskAssessment
  rawClimateData :: ClimateData

datatype AggregationLevel = Daily | Weekly | Monthly

record AnalysisConfig =
  startDate :: string
  endDate :: string
  surfaceProperties :: SurfaceProperties
  aggregationLevel :: AggregationLevel

text \<open>
  The failures of the source, as values. \<open>DivisionByZero\<close> stands for the non-finite
  quotient (\<open>Infinity\<close>, \<open>-Infinity\<close> or \<open>NaN\<close>) that JavaScript computes where
  the divisor is zero; \<open>RangeError\<close> is what date-fns \<open>format\<close> throws on an invalid
  date; the next three are the rejections of \<open>callNASAPowerAPI\<close>; the last three are
  the failures of \<open>handleFileSelect\<close> before any point is processed.
\<close>

datatype error =
    DivisionByZero
  | RangeError
  | NetworkError
  | ApiError
  | InvalidResponseFormat
  | UnsupportedFileFormat
  | NoValidGPSData
  | ParseFailure

section \<open>Surface physics (class ClimateCalculations)\<close>

definition sigma :: real where
  \<comment> \<open>\<open>const sigma = 5.67e-8\<close>\<close>
  "sigma = 567 / 10 ^ 10"

definition calculateSurfaceTemperature ::
  "real \<Rightarrow> real \<Rightarrow> SurfaceProperties \<Rightarrow> error + real" where
  "calculateSurfaceTemperature airTemp solarRad properties =
     (let absorgedRadiation = solarRad * (1 - albedo properties) in
      if emissivity properties * sigma * 20 = 0 then Inl DivisionByZero
      else
        (let radiationEffect = absorgedRadiation / (emissivity properties * sigma * 20)
         in Inr (airTemp + radiationEffect * 0.1)))"

record EMC =
  average :: real
  peak :: real

definition calculateEMC :: "real \<Rightarrow> real \<Rightarrow> EMC" where
  "calculateEMC temp hum =
     (let rh = min hum 95;
          avg = (330 + 0.452 * rh + 0.00415 * rh * rh) /
                (100 + 1.27 * rh + 0.0135 * rh * rh);
          tempFactor = 1 + (temp - 20) * 0.02;
          pk = avg * tempFactor
      in \<lparr>average = max 0 avg, peak = max 0 pk\<rparr>)"

definition calculateCumulativeUV :: "real \<Rightarrow> real \<Rightarrow> real" where
  \<comment> \<open>the second parameter has the default value 24 in the source\<close>
  "calculateCumulativeUV uv hours = uv * hours * 0.1"

definition assessRisks :: "number \<Rightarrow> number \<Rightarrow> number \<Rightarrow> number \<Rightarrow> RiskAssessment" where
  "assessRisks surfaceTemp emcAvg emcPk cumUV =
     (let cracking =
            (if jsGt surfaceTemp (Num 60) then High
             else if jsGt surfaceTemp (Num 40) then Medium
             else Low);
          emcVariation = jsAbs (jsSub emcPk emcAvg);
          moisture =
            (if jsGt emcVariation (Num 5) then High
             else if jsGt emcVariation (Num 3) then Medium
             else Low);
          aging = jsAdd (jsAdd (Num 1) (jsDiv cumUV (Num 100)))
                    (jsMul (jsSub surfaceTemp (Num 20)) (Num 0.05))
      in \<lparr>crackingRisk = cracking, agingRate = jsMax (Num 1) aging,
          moistureStress = moisture\<rparr>)"

text \<open>
  The value JavaScript computes in \<open>calculateSurfaceTemperature\<close> where the divisor is
  zero, which is what the error value \<open>DivisionByZero\<close> stands for: the quotient of the
  absorbed radiation by zero (an infinity with the sign of the absorbed radiation, or
  \<open>NaN\<close> where that is zero too), times 0.1, added to the air temperature.
\<close>

definition divisionByZeroValue :: "real \<Rightarrow> real \<Rightarrow> number" where
  "divisionByZeroValue airTemp absorgedRadiation =
     jsAdd (Num airTemp) (jsMul (jsDiv (Num absorgedRadiation) (Num 0)) (Num 0.1))"

definition surfaceTemperatureNumber :: "real \<Rightarrow> real \<Rightarrow> SurfaceProperties \<Rightarrow> number" where
  "surfaceTemperatureNumber airTemp solarRad properties =
     (case calculateSurfaceTemperature airTemp solarRad properties of
        Inr t \<Rightarrow> Num t
      | Inl e \<Rightarrow> divisionByZeroValue airTemp (solarRad * (1 - albedo properties)))"

text \<open>
  One element of the \<open>map\<close> in \<open>processClimateData\<close>. The source returns an object
  for every record, also where the surface temperature is not finite: \<open>assessRisks\<close>
  is then called with an infinity or with \<open>NaN\<close>.
\<close>

definition deriveRecord :: "SurfaceProperties \<Rightarrow> ClimateData \<Rightarrow> AnalysisResult" where
  "deriveRecord properties d =
     (let surfaceTemp =
            surfaceTemperatureNumber (temperature d) (solarRadiation d) properties;
          emc = calculateEMC (temperature d) (humidity d);
          cumUV = calculateCumulativeUV (uvIndex d) 24;
          risk = assessRisks surfaceTemp (Num (average emc)) (Num (peak emc)) (Num cumUV)
      in \<lparr>latitude = latitude d, longitude = longitude d, date = date d,
          surfaceTemperature = surfaceTemp,
          emcAverage = average emc, emcPeak = peak emc,
          cumulativeUV = cumUV, riskAssessment = risk,
          rawClimateData = d\<rparr>)"

definition processClimateData ::
  "ClimateData list \<Rightarrow> SurfaceProperties \<Rightarrow> AnalysisResult list" where
  "processClimateData climate properties = map (deriveRecord properties) climate"

section \<open>Route processing (class DataProcessor)\<close>

text \<open>
  The source calls three things it does not define: date-fns (always as
  \<open>format(parseISO(ts), pattern)\<close>), the browser's \<open>fetch\<close> and \<open>Math.random\<close>.
  They are parameters of the model, collected in an environment:
  \<^item> \<open>formatDate ts pattern\<close> is the text of \<open>format(parseISO(ts), pattern)\<close>, or
    \<open>None\<close> where \<open>format\<close> throws its RangeError (an invalid date);
  \<^item> \<open>fetch k url\<close> is what the request for \<open>url\<close> yields when \<open>k\<close> requests were
    made before it;
  \<^item> \<open>mathRandom k\<close> is the value of the \<open>k\<close>-th call of \<open>Math.random()\<close>.
\<close>

type_synonym Series = "string \<rightharpoonup> real"

type_synonym Parameters = "string \<rightharpoonup> Series"

text \<open>
  The request URL, as the four values it is built from (the fixed parameter list and
  the text formatting of the numbers are left to \<open>fetch\<close>). The two dates are the
  numbers whose \<open>toString()\<close> the source sends; \<open>None\<close> is \<open>NaN\<close>.
\<close>

datatype Url = Url (urlLatitude: real) (urlLongitude: real)
  (urlStart: "nat option") (urlEnd: "nat option")

text \<open>
  The outcome of \<open>fetch\<close> followed by \<open>response.json()\<close>: a rejection (network
  failure, or a body that is not JSON), or a response with its \<open>ok\<close> flag and the
  object \<open>data.properties.parameter\<close>, \<open>None\<close> where \<open>data.properties\<close> or its
  \<open>parameter\<close> is missing.
\<close>

datatype FetchResult = Rejected | Response bool "Parameters option"

record Environment =
  formatDate :: "string \<Rightarrow> string \<Rightarrow> string option"
  fetch :: "nat \<Rightarrow> Url \<Rightarrow> FetchResult"
  mathRandom :: "nat \<Rightarrow> real"

text \<open>What the program does to the outside: the requests sent, the random numbers drawn.\<close>

record World =
  apiCalls :: "Url list"
  randomDraws :: nat

subsection \<open>A model of date-fns\<close>

text \<open>
  \<open>dateFnsFormat zone ts pattern\<close> models \<open>format(parseISO(ts), pattern)\<close> of the
  date-fns library, from its documentation, on a machine whose clock is \<open>zone\<close> minutes
  ahead of UTC, for the two patterns the source uses and for timestamps of the forms
  \<open>yyyy-MM-dd\<close> and \<open>yyyy-MM-ddTHH:mm:ss\<close>, the latter alone or followed by \<open>Z\<close>
  or by an offset \<open>+HH:mm\<close> or \<open>-HH:mm\<close>. \<open>parseISO\<close> yields the instant the text
  denotes (in minutes since 1970-01-01T00:00Z; a text without \<open>Z\<close> or offset is read on
  the machine's clock), and \<open>format\<close> writes the calendar date of that instant on the
  machine's clock. \<open>None\<close> is the RangeError that \<open>format\<close> throws on the invalid
  date that \<open>parseISO\<close> returns for a text it cannot read. The general theorems below
  hold for every formatter; this one is for the examples.
\<close>

definition isDigit :: "char \<Rightarrow> bool" where
  "isDigit c = (48 \<le> (of_char c :: nat) \<and> (of_char c :: nat) \<le> 57)"

definition digitsValue :: "string \<Rightarrow> nat option" where
  "digitsValue s =
     (if s \<noteq> [] \<and> list_all isDigit s
      then Some (foldl (\<lambda>n c. 10 * n + ((of_char c :: nat) - 48)) 0 s)
      else None)"

definition isLeapYear :: "nat \<Rightarrow> bool" where
  "isLeapYear y = (y mod 4 = 0 \<and> (y mod 100 \<noteq> 0 \<or> y mod 400 = 0))"

definition daysInMonth :: "nat \<Rightarrow> nat \<Rightarrow> nat" where
  "daysInMonth y m =
     (if m = 2 then (if isLeapYear y then 29 else 28)
      else if m = 4 \<or> m = 6 \<or> m = 9 \<or> m = 11 then 30
      else 31)"

definition daysFromCivil :: "int \<Rightarrow> int \<Rightarrow> int \<Rightarrow> int" where
  "daysFromCivil y m d =
     (let y' = (if m \<le> 2 then y - 1 else y);
          era = y' div 400;
          yoe = y' - era * 400;
          doy = (153 * (if 2 < m then m - 3 else m + 9) + 2) div 5 + d - 1;
          doe = yoe * 365 + yoe div 4 - yoe div 100 + doy
      in era * 146097 + doe - 719468)"

definition civilFromDays :: "int \<Rightarrow> int \<times> int \<times> int" where
  "civilFromDays z =
     (let z' = z + 719468;
          era = z' div 146097;
          doe = z' - era * 146097;
          yoe = (doe - doe div 1460 + doe div 36524 - doe div 146096) div 365;
          doy = doe - (365 * yoe + yoe div 4 - yoe div 100);
          mp = (5 * doy + 2) div 153;
          d = doy - (153 * mp + 2) div 5 + 1;
          m = (if mp < 10 then mp + 3 else mp - 9);
          y = yoe + era * 400
      in (if m \<le> 2 then y + 1 else y, m, d))"

definition parseDate :: "string \<Rightarrow> int option" where
  "parseDate s =
     (if length s = 10 \<and> s ! 4 = CHR ''-'' \<and> s ! 7 = CHR ''-''
      then
        (case (digitsValue (take 4 s), digitsValue (take 2 (drop 5 s)),
               digitsValue (take 2 (drop 8 s))) of
           (Some y, Some m, Some d) \<Rightarrow>
             if 1 \<le> m \<and> m \<le> 12 \<and> 1 \<le> d \<and> d \<le> daysInMonth y m
             then Some (daysFromCivil (int y) (int m) (int d))
             else None
         | _ \<Rightarrow> None)
      else None)"

definition parseTime :: "string \<Rightarrow> int option" where
  "parseTime s =
     (if length s = 8 \<and> s ! 2 = CHR '':'' \<and> s ! 5 = CHR '':''
      then
        (case (digitsValue (take 2 s), digitsValue (take 2 (drop 3 s)),
               digitsValue (take 2 (drop 6 s))) of
           (Some h, Some m, Some sec) \<Rightarrow>
             if h \<le> 23 \<and> m \<le> 59 \<and> sec \<le> 59 then Some (int (60 * h + m)) else None
         | _ \<Rightarrow> None)
      else None)"

definition parseOffset :: "int \<Rightarrow> string \<Rightarrow> int option" where
  "parseOffset zone s =
     (if s = [] then Some zone
      else if s = ''Z'' then Some 0
      else if length s = 6 \<and> (hd s = CHR ''+'' \<or> hd s = CHR ''-'') \<and> s ! 3 = CHR '':''
      then
        (case (digitsValue (take 2 (drop 1 s)), digitsValue (take 2 (drop 4 s))) of
           (Some h, Some m) \<Rightarrow>
             if h \<le> 23 \<and> m \<le> 59
             then Some ((if hd s = CHR ''-'' then - 1 else 1) * int (60 * h + m))
             else None
         | _ \<Rightarrow> None)
      else None)"

definition parseISO :: "int \<Rightarrow> string \<Rightarrow> int option" where
  "parseISO zone ts =
     (case parseDate (take 10 ts) of
        None \<Rightarrow> None
      | Some days \<Rightarrow>
          (let rest = drop 10 ts
           in if rest = [] then Some (days * 1440 - zone)
              else if hd rest \<noteq> CHR ''T'' then None
              else
                (case (parseTime (take 8 (tl rest)), parseOffset zone (drop 8 (tl rest))) of
                   (Some minutes, Some offset) \<Rightarrow> Some (days * 1440 + minutes - offset)
                 | _ \<Rightarrow> None)))"

definition digitChar :: "int \<Rightarrow> char" where
  "digitChar n = char_of (48 + nat (n mod 10))"

definition pad2 :: "int \<Rightarrow> string" where
  "pad2 n = [digitChar (n div 10), digitChar n]"

definition pad4 :: "int \<Rightarrow> string" where
  "pad4 n = [digitChar (n div 1000), digitChar (n div 100), digitChar (n div 10), digitChar n]"

definition formatLocal :: "int \<Rightarrow> int \<Rightarrow> string \<Rightarrow> string option" where
  "formatLocal zone instant pattern =
     (case civilFromDays ((instant + zone) div 1440) of
        (y, m, d) \<Rightarrow>
          if pattern = ''yyyy-MM-dd'' then Some (pad4 y @ ''-'' @ pad2 m @ ''-'' @ pad2 d)
          else if pattern = ''yyyyMMdd'' then Some (pad4 y @ pad2 m @ pad2 d)
          else None)"

definition dateFnsFormat :: "int \<Rightarrow> string \<Rightarrow> string \<Rightarrow> string option" where
  "dateFnsFormat zone ts pattern =
     (case parseISO zone ts of
        None \<Rightarrow> None
      | Some instant \<Rightarrow> formatLocal zone instant pattern)"


subsection \<open>aggregateByDay\<close>

text \<open>
  \<open>dailyGroups\<close> is a JavaScript \<open>Map\<close>, which iterates in insertion order: an
  association list with each key once, a new key added at the end.
\<close>

type_synonym DailyGroups = "(string \<times> GPSPoint list) list"

fun pushToGroup :: "string \<Rightarrow> GPSPoint \<Rightarrow> DailyGroups \<Rightarrow> DailyGroups" where
  "pushToGroup d p [] = [(d, [p])]"
| "pushToGroup d p ((k, ps) # rest) =
     (if k = d then (k, ps @ [p]) # rest else (k, ps) # pushToGroup d p rest)"

fun groupByDate ::
  "(string \<Rightarrow> string \<Rightarrow> string option) \<Rightarrow> GPSPoint list \<Rightarrow> DailyGroups \<Rightarrow> error + DailyGroups" where
  "groupByDate fmt [] dailyGroups = Inr dailyGroups"
| "groupByDate fmt (point # rest) dailyGroups =
     (case fmt (timestamp point) ''yyyy-MM-dd'' of
        None \<Rightarrow> Inl RangeError
      | Some d \<Rightarrow> groupByDate fmt rest (pushToGroup d point dailyGroups))"

text \<open>
  The divisions by \<open>points.length\<close> here and in \<open>calculateCenterPoint\<close> are never by
  zero: a date group and a proximity group hold at least the point that opened them
  (lemmas \<open>groupByDate_nonempty\<close> and \<open>groupIndices_nonempty\<close>).
\<close>

definition dailyPoint :: "string \<times> GPSPoint list \<Rightarrow> GPSPoint" where
  "dailyPoint entry =
     (case entry of (d, points) \<Rightarrow>
        (let avgLat = foldl (\<lambda>total p. total + latitude p) 0 points / real (length points);
             avgLng = foldl (\<lambda>total p. total + longitude p) 0 points / real (length points)
         in \<lparr>latitude = avgLat, longitude = avgLng, timestamp = d @ ''T12:00:00Z''\<rparr>))"

definition aggregateByDay ::
  "(string \<Rightarrow> string \<Rightarrow> string option) \<Rightarrow> GPSPoint list \<Rightarrow> error + GPSPoint list" where
  "aggregateByDay fmt gpsPoints =
     (case groupByDate fmt gpsPoints [] of
        Inl e \<Rightarrow> Inl e
      | Inr dailyGroups \<Rightarrow> Inr (map dailyPoint dailyGroups))"

subsection \<open>groupPointsByProximity\<close>

definition calculateDistance :: "real \<Rightarrow> real \<Rightarrow> real \<Rightarrow> real \<Rightarrow> real" where
  "calculateDistance lat1 lon1 lat2 lon2 = sqrt ((lat2 - lat1)\<^sup>2 + (lon2 - lon1)\<^sup>2)"

text \<open>
  The two loops run over fixed index ranges, so they are folds over \<open>[i + 1 ..< n]\<close> and
  \<open>[0 ..< n]\<close>. The source pushes \<open>points[j]\<close> into the group; the model records the
  index \<open>j\<close> and reads the points at the end (\<open>groupPointsByProximity\<close>), so that
  properties of the indices can be stated. Every recorded index is below \<open>length points\<close>.
\<close>

definition scanStep ::
  "GPSPoint list \<Rightarrow> real \<Rightarrow> nat \<Rightarrow> nat \<Rightarrow> nat list \<times> nat set \<Rightarrow> nat list \<times> nat set" where
  "scanStep points threshold i j st =
     (case st of (grp, processed) \<Rightarrow>
        if j \<in> processed then (grp, processed)
        else if calculateDistance (latitude (points ! i)) (longitude (points ! i))
                  (latitude (points ! j)) (longitude (points ! j)) < threshold
        then (grp @ [j], insert j processed)
        else (grp, processed))"

definition seedStep ::
  "GPSPoint list \<Rightarrow> real \<Rightarrow> nat \<Rightarrow> nat list list \<times> nat set \<Rightarrow> nat list list \<times> nat set" where
  "seedStep points threshold i st =
     (case st of (groups, processed) \<Rightarrow>
        if i \<in> processed then (groups, processed)
        else
          (case fold (scanStep points threshold i) [i + 1 ..< length points]
                  ([i], insert i processed) of
             (grp, processed') \<Rightarrow> (groups @ [grp], processed')))"

definition groupIndicesByProximity :: "GPSPoint list \<Rightarrow> real \<Rightarrow> nat list list" where
  "groupIndicesByProximity points threshold =
     fst (fold (seedStep points threshold) [0 ..< length points] ([], {}))"

definition groupPointsByProximity :: "GPSPoint list \<Rightarrow> real \<Rightarrow> GPSPoint list list" where
  "groupPointsByProximity points threshold =
     map (map (\<lambda>i. points ! i)) (groupIndicesByProximity points threshold)"

definition calculateCenterPoint :: "GPSPoint list \<Rightarrow> Coordinates" where
  "calculateCenterPoint points =
     (let avgLat = foldl (\<lambda>total p. total + latitude p) 0 points / real (length points);
          avgLng = foldl (\<lambda>total p. total + longitude p) 0 points / real (length points)
      in \<lparr>latitude = avgLat, longitude = avgLng\<rparr>)"

subsection \<open>fetchClimateData\<close>

text \<open>
  \<open>parseInt\<close> on the text of a date: the number written by the leading decimal digits,
  \<open>None\<close> (\<open>NaN\<close>) where there is none. \<open>Math.min\<close> and \<open>Math.max\<close> are \<open>NaN\<close>
  where an argument is. They are called on the dates of a group, which is never empty;
  on the empty list (\<open>Infinity\<close> and \<open>-Infinity\<close> in JavaScript) the model has
  \<open>None\<close> too.
\<close>

definition parseInt :: "string \<Rightarrow> nat option" where
  "parseInt s =
     (let ds = takeWhile isDigit s
      in if ds = [] then None
         else Some (foldl (\<lambda>n c. 10 * n + ((of_char c :: nat) - 48)) 0 ds))"

definition mathMin :: "nat option list \<Rightarrow> nat option" where
  "mathMin xs =
     (case those xs of
        None \<Rightarrow> None
      | Some [] \<Rightarrow> None
      | Some (n # ns) \<Rightarrow> Some (fold min ns n))"

definition mathMax :: "nat option list \<Rightarrow> nat option" where
  "mathMax xs =
     (case those xs of
        None \<Rightarrow> None
      | Some [] \<Rightarrow> None
      | Some (n # ns) \<Rightarrow> Some (fold max ns n))"

definition callNASAPowerAPI ::
  "Environment \<Rightarrow> real \<Rightarrow> real \<Rightarrow> nat option \<Rightarrow> nat option \<Rightarrow> World \<Rightarrow>
     (error + Parameters) \<times> World" where
  "callNASAPowerAPI env lat lon start end w =
     (let url = Url lat lon start end;
          w' = w\<lparr>apiCalls := apiCalls w @ [url]\<rparr>
      in case fetch env (length (apiCalls w)) url of
           Rejected \<Rightarrow> (Inl NetworkError, w')
         | Response ok body \<Rightarrow>
             if \<not> ok then (Inl ApiError, w')
             else
               (case body of
                  None \<Rightarrow> (Inl InvalidResponseFormat, w')
                | Some dayData \<Rightarrow> (Inr dayData, w')))"

definition calculateUVIndex :: "real \<Rightarrow> real \<Rightarrow> real" where
  "calculateUVIndex uva uvb = (let totalUV = uva + uvb in min 11 (max 0 (totalUV / 25)))"

definition generateMockClimateData ::
  "Environment \<Rightarrow> GPSPoint \<Rightarrow> World \<Rightarrow> (error + ClimateData) \<times> World" where
  "generateMockClimateData env point w =
     (case formatDate env (timestamp point) ''yyyy-MM-dd'' of
        None \<Rightarrow> (Inl RangeError, w)
      | Some d \<Rightarrow>
          (let k = randomDraws w
           in (Inr \<lparr>latitude = latitude point, longitude = longitude point, date = d,
                    temperature = 20 + mathRandom env k * 25,
                    maxTemperature = 25 + mathRandom env (k + 1) * 30,
                    solarRadiation = 100 + mathRandom env (k + 2) * 400,
                    humidity = 30 + mathRandom env (k + 3) * 50,
                    uvIndex = 1 + mathRandom env (k + 4) * 10\<rparr>,
               w\<lparr>randomDraws := k + 5\<rparr>)))"

text \<open>
  \<open>dayData.NAME?.[dateKey]\<close>: \<open>None\<close> is \<open>undefined\<close>, for a missing parameter as for
  a missing date. \<open>value || fallback\<close> on numbers takes the fallback where the value is
  \<open>undefined\<close> and also where it is \<open>0\<close>, which is falsy.
\<close>

definition lookupSeries :: "Parameters \<Rightarrow> string \<Rightarrow> string \<Rightarrow> real option" where
  "lookupSeries dayData name dateKey =
     (case dayData name of None \<Rightarrow> None | Some series \<Rightarrow> series dateKey)"

definition orElse :: "real option \<Rightarrow> real \<Rightarrow> real" where
  "orElse v fallback =
     (case v of None \<Rightarrow> fallback | Some x \<Rightarrow> if x = 0 then fallback else x)"

definition climateRecord :: "Parameters \<Rightarrow> string \<Rightarrow> string \<Rightarrow> GPSPoint \<Rightarrow> real \<Rightarrow> ClimateData" where
  \<comment> \<open>the object pushed at lines 104-116; \<open>t2m\<close> is \<open>dayData.T2M[dateKey]\<close>\<close>
  "climateRecord dayData dateKey d point t2m =
     \<lparr>latitude = latitude point, longitude = longitude point, date = d,
      temperature = t2m,
      maxTemperature = orElse (lookupSeries dayData ''T2M_MAX'' dateKey) (t2m + 5),
      solarRadiation = orElse (lookupSeries dayData ''ALLSKY_SFC_SW_DWN'' dateKey) 200,
      humidity = orElse (lookupSeries dayData ''RH2M'' dateKey) 50,
      uvIndex = calculateUVIndex
        (orElse (lookupSeries dayData ''ALLSKY_SFC_UVA'' dateKey) 0)
        (orElse (lookupSeries dayData ''ALLSKY_SFC_UVB'' dateKey) 0)\<rparr>"

text \<open>
  The loop "Map API data to our format". A throw leaves the loop with the records pushed
  so far still in \<open>results\<close>: the first component is the error thrown, if any.
\<close>

fun mapApiData ::
  "Environment \<Rightarrow> Parameters \<Rightarrow> GPSPoint list \<Rightarrow> ClimateData list \<Rightarrow>
     error option \<times> ClimateData list" where
  "mapApiData env dayData [] results = (None, results)"
| "mapApiData env dayData (point # rest) results =
     (case formatDate env (timestamp point) ''yyyyMMdd'' of
        None \<Rightarrow> (Some RangeError, results)
      | Some dateKey \<Rightarrow>
          (case lookupSeries dayData ''T2M'' dateKey of
             None \<Rightarrow> mapApiData env dayData rest results
           | Some t2m \<Rightarrow>
               (case formatDate env (timestamp point) ''yyyy-MM-dd'' of
                  None \<Rightarrow> (Some RangeError, results)
                | Some d \<Rightarrow>
                    mapApiData env dayData rest
                      (results @ [climateRecord dayData dateKey d point t2m]))))"

text \<open>The body of \<open>try\<close> for one group (the 100 ms delay is not modelled).\<close>

definition tryGroup ::
  "Environment \<Rightarrow> GPSPoint list \<Rightarrow> ClimateData list \<times> World \<Rightarrow>
     error option \<times> ClimateData list \<times> World" where
  "tryGroup env grp st =
     (case st of (results, w) \<Rightarrow>
        (let centerPoint = calculateCenterPoint grp
         in case those (map (\<lambda>p. formatDate env (timestamp p) ''yyyyMMdd'') grp) of
              None \<Rightarrow> (Some RangeError, results, w)
            | Some dates \<Rightarrow>
                (let start = mathMin (map parseInt dates);
                     end = mathMax (map parseInt dates)
                 in case callNASAPowerAPI env (latitude centerPoint) (longitude centerPoint)
                           start end w of
                      (Inl e, w') \<Rightarrow> (Some e, results, w')
                    | (Inr apiData, w') \<Rightarrow>
                        (case mapApiData env apiData grp results of
                           (thrown, results') \<Rightarrow> (thrown, results', w')))))"

text \<open>The body of \<open>catch\<close>: a throw in it leaves \<open>fetchClimateData\<close>.\<close>

fun mockGroup ::
  "Environment \<Rightarrow> GPSPoint list \<Rightarrow> ClimateData list \<times> World \<Rightarrow>
     error option \<times> ClimateData list \<times> World" where
  "mockGroup env [] st = (None, st)"
| "mockGroup env (point # rest) st =
     (case st of (results, w) \<Rightarrow>
        (case generateMockClimateData env point w of
           (Inl e, w') \<Rightarrow> (Some e, results, w')
         | (Inr r, w') \<Rightarrow> mockGroup env rest (results @ [r], w')))"

definition resolveGroup ::
  "Environment \<Rightarrow> GPSPoint list \<Rightarrow> ClimateData list \<times> World \<Rightarrow>
     error option \<times> ClimateData list \<times> World" where
  "resolveGroup env grp st =
     (case tryGroup env grp st of
        (None, st') \<Rightarrow> (None, st')
      | (Some e, st') \<Rightarrow> mockGroup env grp st')"

fun resolveGroups ::
  "Environment \<Rightarrow> GPSPoint list list \<Rightarrow> ClimateData list \<times> World \<Rightarrow>
     error option \<times> ClimateData list \<times> World" where
  "resolveGroups env [] st = (None, st)"
| "resolveGroups env (grp # rest) st =
     (case resolveGroup env grp st of
        (None, st') \<Rightarrow> resolveGroups env rest st'
      | (Some e, st') \<Rightarrow> (Some e, st'))"

definition fetchClimateData ::
  "Environment \<Rightarrow> GPSPoint list \<Rightarrow> World \<Rightarrow> (error + ClimateData list) \<times> World" where
  "fetchClimateData env gpsPoints w =
     (case resolveGroups env (groupPointsByProximity gpsPoints 0.1) ([], w) of
        (None, results, w') \<Rightarrow> (Inr results, w')
      | (Some e, results, w') \<Rightarrow> (Inl e, w'))"

section \<open>The application state (App.tsx)\<close>

text \<open>
  The React state of \<open>App\<close> without the tab of the presentation, and its two handlers as
  transitions on the state and the world, each run as one step (no other handler runs
  while \<open>handleFileSelect\<close> awaits). The parsing of the file is outside the model: the
  handler receives its outcome.
\<close>

record AppState =
  gpsData :: "GPSPoint list"
  climateData :: "ClimateData list"
  analysisResults :: "AnalysisResult list"
  loading :: bool
  errorState :: "error option"
  config :: AnalysisConfig

datatype ParsedFile = UnsupportedFile | UnparsableFile | ParsedPoints "GPSPoint list"

definition handleFileSelect ::
  "Environment \<Rightarrow> ParsedFile \<Rightarrow> AppState \<times> World \<Rightarrow> AppState \<times> World" where
  "handleFileSelect env file sw =
     (case sw of (st, w) \<Rightarrow>
        (let st1 = st\<lparr>loading := True, errorState := None\<rparr>
         in case file of
              UnsupportedFile \<Rightarrow>
                (st1\<lparr>errorState := Some UnsupportedFileFormat, loading := False\<rparr>, w)
            | UnparsableFile \<Rightarrow>
                (st1\<lparr>errorState := Some ParseFailure, loading := False\<rparr>, w)
            | ParsedPoints gpsPoints \<Rightarrow>
                if length gpsPoints = 0
                then (st1\<lparr>errorState := Some NoValidGPSData, loading := False\<rparr>, w)
                else
                  (case aggregateByDay (formatDate env) gpsPoints of
                     Inl e \<Rightarrow> (st1\<lparr>errorState := Some e, loading := False\<rparr>, w)
                   | Inr aggregatedPoints \<Rightarrow>
                       (let st2 = st1\<lparr>gpsData := aggregatedPoints\<rparr>
                        in case fetchClimateData env aggregatedPoints w of
                             (Inl e, w') \<Rightarrow>
                               (st2\<lparr>errorState := Some e, loading := False\<rparr>, w')
                           | (Inr climate, w') \<Rightarrow>
                               (st2\<lparr>climateData := climate,
                                    analysisResults :=
                                      processClimateData climate (surfaceProperties (config st)),
                                    loading := False\<rparr>, w')))))"

definition handleConfigChange :: "AnalysisConfig \<Rightarrow> AppState \<times> World \<Rightarrow> AppState \<times> World" where
  "handleConfigChange newConfig sw =
     (case sw of (st, w) \<Rightarrow>
        (let st1 = st\<lparr>config := newConfig\<rparr>
         in if length (climateData st) > 0
            then (st1\<lparr>analysisResults :=
                        processClimateData (climateData st) (surfaceProperties newConfig)\<rparr>, w)
            else (st1, w)))"

text \<open>
  The state \<open>App\<close> starts in (\<open>today\<close> is the date of the first render), the world
  before any request, and the states the handlers can reach from there: \<open>run\<close> applies
  a sequence of user actions.
\<close>

definition initialState :: "string \<Rightarrow> AppState" where
  "initialState today =
     \<lparr>gpsData = [], climateData = [], analysisResults = [], loading = False,
      errorState = None,
      config = \<lparr>startDate = today, endDate = today,
                 surfaceProperties =
                   \<lparr>albedo = 0.25, emissivity = 0.90, materialType = ''wood''\<rparr>,
                 aggregationLevel = Daily\<rparr>\<rparr>"

definition initialWorld :: World where
  "initialWorld = \<lparr>apiCalls = [], randomDraws = 0\<rparr>"

datatype Event = FileSelect ParsedFile | ConfigChange AnalysisConfig

fun handleEvent :: "Environment \<Rightarrow> Event \<Rightarrow> AppState \<times> World \<Rightarrow> AppState \<times> World" where
  "handleEvent env (FileSelect file) sw = handleFileSelect env file sw"
| "handleEvent env (ConfigChange newConfig) sw = handleConfigChange newConfig sw"

definition run :: "Environment \<Rightarrow> string \<Rightarrow> Event list \<Rightarrow> AppState \<times> World" where
  "run env today events = fold (handleEvent env) events (initialState today, initialWorld)"

section \<open>Auxiliary definitions for the proofs\<close>

text \<open>
  Numerator and denominator of the quotient in \<open>calculateEMC\<close>, named for the proofs.
\<close>

definition emcNumerator :: "real \<Rightarrow> real" where
  "emcNumerator rh = 330 + 0.452 * rh + 0.00415 * rh * rh"

definition emcDenominator :: "real \<Rightarrow> real" where
  "emcDenominator rh = 100 + 1.27 * rh + 0.0135 * rh * rh"

text \<open>
  \<open>near points threshold i j\<close> is the test of the inner loop; \<open>members\<close> are the
  indices the inner loop adds to the group of seed \<open>i\<close> when \<open>P\<close> is the set of
  indices processed before; \<open>groupsInv\<close> is the invariant of the outer loop.
\<close>

definition near :: "GPSPoint list \<Rightarrow> real \<Rightarrow> nat \<Rightarrow> nat \<Rightarrow> bool" where
  "near points threshold i j =
     (calculateDistance (latitude (points ! i)) (longitude (points ! i))
        (latitude (points ! j)) (longitude (points ! j)) < threshold)"

definition members :: "GPSPoint list \<Rightarrow> real \<Rightarrow> nat \<Rightarrow> nat set \<Rightarrow> nat list" where
  "members points threshold i P =
     filter (\<lambda>j. j \<notin> insert i P \<and> near points threshold i j) [i + 1 ..< length points]"

definition groupsInv :: "GPSPoint list \<Rightarrow> real \<Rightarrow> nat list list \<times> nat set \<Rightarrow> bool" where
  "groupsInv points threshold st =
     (case st of (groups, P) \<Rightarrow>
        P = set (concat groups) \<and> distinct (concat groups) \<and>
        list_all (\<lambda>k. k < length points) (concat groups) \<and>
        list_all (\<lambda>g. g \<noteq> [] \<and>
                    list_all (\<lambda>j. hd g < j \<and> near points threshold (hd g) j) (tl g)) groups)"

text \<open>
  \<open>dateGroupsOf day ps G\<close>: the association list \<open>G\<close> holds each date of \<open>ps\<close> once,
  with the points of that date in input order. \<open>dailyMean day samples d\<close> is the point
  that the specification asks for on date \<open>d\<close>: the arithmetic mean of the coordinates
  of the samples of that date, at 12:00:00Z.
\<close>

definition dateGroupsOf :: "(GPSPoint \<Rightarrow> string) \<Rightarrow> GPSPoint list \<Rightarrow> DailyGroups \<Rightarrow> bool" where
  "dateGroupsOf day ps G =
     (distinct (map fst G) \<and> fst ` set G = day ` set ps \<and>
      list_all (\<lambda>e. snd e = filter (\<lambda>p. day p = fst e) ps) G)"

definition dailyMean :: "(GPSPoint \<Rightarrow> string) \<Rightarrow> GPSPoint list \<Rightarrow> string \<Rightarrow> GPSPoint" where
  "dailyMean day samples d =
     (let sameDay = filter (\<lambda>p. day p = d) samples
      in \<lparr>latitude = sum_list (map latitude sameDay) / real (length sameDay),
          longitude = sum_list (map longitude sameDay) / real (length sameDay),
          timestamp = d @ ''T12:00:00Z''\<rparr>)"

text \<open>
  What identifies the point a record belongs to: its date and its coordinates.
  \<open>hasT2M dayData key p\<close>: the response holds an air temperature for the date key of
  \<open>p\<close>. \<open>groupUrl key g\<close> is the request for the group \<open>g\<close>, and \<open>answer env n url\<close>
  the parameters of its response when it is the \<open>n\<close>-th request and succeeds.
  \<open>keptMembers\<close> are the members of a group that get a record: all of them when the
  request failed, those with an air temperature for their date when it succeeded;
  \<open>droppedMembers\<close> are the others. \<open>keptPoints\<close> and \<open>droppedPoints\<close> collect them
  over the groups, the first of which makes request number \<open>n\<close>.
  \<open>resultsMatch\<close> is the invariant of the application state.
\<close>

definition recordTag :: "ClimateData \<Rightarrow> string \<times> real \<times> real" where
  "recordTag r = (date r, latitude r, longitude r)"

definition pointTag :: "(GPSPoint \<Rightarrow> string) \<Rightarrow> GPSPoint \<Rightarrow> string \<times> real \<times> real" where
  "pointTag day p = (day p, latitude p, longitude p)"

definition hasT2M :: "Parameters \<Rightarrow> (GPSPoint \<Rightarrow> string) \<Rightarrow> GPSPoint \<Rightarrow> bool" where
  "hasT2M dayData key p = (lookupSeries dayData ''T2M'' (key p) \<noteq> None)"

definition groupUrl :: "(GPSPoint \<Rightarrow> string) \<Rightarrow> GPSPoint list \<Rightarrow> Url" where
  "groupUrl key g =
     (let centerPoint = calculateCenterPoint g
      in Url (latitude centerPoint) (longitude centerPoint)
           (mathMin (map parseInt (map key g))) (mathMax (map parseInt (map key g))))"

definition answer :: "Environment \<Rightarrow> nat \<Rightarrow> Url \<Rightarrow> Parameters option" where
  "answer env n url =
     (case fetch env n url of
        Rejected \<Rightarrow> None
      | Response ok body \<Rightarrow> if ok then body else None)"

definition keptMembers ::
  "Environment \<Rightarrow> (GPSPoint \<Rightarrow> string) \<Rightarrow> nat \<Rightarrow> GPSPoint list \<Rightarrow> GPSPoint list" where
  "keptMembers env key n g =
     (case answer env n (groupUrl key g) of
        None \<Rightarrow> g
      | Some dayData \<Rightarrow> filter (hasT2M dayData key) g)"

definition droppedMembers ::
  "Environment \<Rightarrow> (GPSPoint \<Rightarrow> string) \<Rightarrow> nat \<Rightarrow> GPSPoint list \<Rightarrow> GPSPoint list" where
  "droppedMembers env key n g =
     (case answer env n (groupUrl key g) of
        None \<Rightarrow> []
      | Some dayData \<Rightarrow> filter (\<lambda>p. \<not> hasT2M dayData key p) g)"

fun keptPoints ::
  "Environment \<Rightarrow> (GPSPoint \<Rightarrow> string) \<Rightarrow> nat \<Rightarrow> GPSPoint list list \<Rightarrow> GPSPoint list" where
  "keptPoints env key n [] = []"
| "keptPoints env key n (g # gs) = keptMembers env key n g @ keptPoints env key (Suc n) gs"

fun droppedPoints ::
  "Environment \<Rightarrow> (GPSPoint \<Rightarrow> string) \<Rightarrow> nat \<Rightarrow> GPSPoint list list \<Rightarrow> GPSPoint list" where
  "droppedPoints env key n [] = []"
| "droppedPoints env key n (g # gs) =
     droppedMembers env key n g @ droppedPoints env key (Suc n) gs"

definition resultsMatch :: "AppState \<times> World \<Rightarrow> bool" where
  "resultsMatch sw = (length (analysisResults (fst sw)) = length (climateData (fst sw)))"

text \<open>
  Concrete inputs for the examples, on a machine on UTC: the formatted dates of a point,
  four samples (the last one late in the evening on a clock five hours behind UTC), a
  text that is no date, and four route points.
\<close>

definition utcKey :: "GPSPoint \<Rightarrow> string" where
  "utcKey p = the (dateFnsFormat 0 (timestamp p) ''yyyyMMdd'')"

definition utcDay :: "GPSPoint \<Rightarrow> string" where
  "utcDay p = the (dateFnsFormat 0 (timestamp p) ''yyyy-MM-dd'')"

definition datePortion :: "GPSPoint \<Rightarrow> string" where
  \<comment> \<open>the date as the timestamp writes it, on the sample's own clock\<close>
  "datePortion p = take 10 (timestamp p)"

definition sampleA :: GPSPoint where
  "sampleA = \<lparr>latitude = 10, longitude = 20, timestamp = ''2024-01-05T08:00:00Z''\<rparr>"

definition sampleB :: GPSPoint where
  "sampleB = \<lparr>latitude = 10.02, longitude = 20.02, timestamp = ''2024-01-05T18:30:00Z''\<rparr>"

definition sampleC :: GPSPoint where
  "sampleC = \<lparr>latitude = 11, longitude = 21, timestamp = ''2024-01-06T09:00:00Z''\<rparr>"

definition eveningSample :: GPSPoint where
  "eveningSample =
     \<lparr>latitude = 10, longitude = 20, timestamp = ''2024-01-05T23:30:00-05:00''\<rparr>"

definition invalidSample :: GPSPoint where
  "invalidSample = \<lparr>latitude = 10, longitude = 20, timestamp = ''yesterday''\<rparr>"

definition pointA :: GPSPoint where
  "pointA = \<lparr>latitude = 0, longitude = 0, timestamp = ''2024-01-05T12:00:00Z''\<rparr>"

definition pointB :: GPSPoint where
  "pointB = \<lparr>latitude = 2, longitude = 0, timestamp = ''2024-01-06T12:00:00Z''\<rparr>"

definition pointC :: GPSPoint where
  "pointC = \<lparr>latitude = 1, longitude = 0, timestamp = ''2024-01-07T12:00:00Z''\<rparr>"

definition pointD :: GPSPoint where
  "pointD = \<lparr>latitude = 0.05, longitude = 0, timestamp = ''2024-01-07T12:00:00Z''\<rparr>"

text \<open>
  Three providers: one whose responses hold no parameter at all; one whose response
  holds an air temperature of -3 and a maximum temperature of 0 for 2024-01-05; and one
  that answers for the dates of the requested range only, has no value for 2024-01-07,
  and fails on the second request.
\<close>

definition emptyResponseEnv :: Environment where
  "emptyResponseEnv =
     \<lparr>formatDate = dateFnsFormat 0, fetch = (\<lambda>k url. Response True (Some Map.empty)),
      mathRandom = (\<lambda>k. 0)\<rparr>"

definition frostResponse :: Parameters where
  "frostResponse =
     [''T2M'' \<mapsto> [''20240105'' \<mapsto> - 3], ''T2M_MAX'' \<mapsto> [''20240105'' \<mapsto> 0]]"

definition frostEnv :: Environment where
  "frostEnv =
     \<lparr>formatDate = dateFnsFormat 0, fetch = (\<lambda>k url. Response True (Some frostResponse)),
      mathRandom = (\<lambda>k. 0)\<rparr>"

definition patchyFetch :: "nat \<Rightarrow> Url \<Rightarrow> FetchResult" where
  "patchyFetch k url =
     (if k = 1 then Rejected
      else Response True
        (Some [''T2M'' \<mapsto>
           (\<lambda>dateKey.
              case (parseInt dateKey, urlStart url, urlEnd url) of
                (Some d, Some a, Some b) \<Rightarrow>
                  if a \<le> d \<and> d \<le> b \<and> d \<noteq> 20240107 then Some 25 else None
              | _ \<Rightarrow> None)]))"

definition patchyEnv :: Environment where
  "patchyEnv =
     \<lparr>formatDate = dateFnsFormat 0, fetch = patchyFetch, mathRandom = (\<lambda>k. 1 / 2)\<rparr>"

section \<open>Properties of the surface physics\<close>

subsection \<open>Risk classifier\<close>

text \<open>
  Claim C3, as stated, is false: the comparisons of \<open>assessRisks\<close> are strict, so a
  surface temperature of exactly 40 is not Medium and one of exactly 60 is not High.
\<close>

theorem assessRisks_boundary_counterexample:
  "crackingRisk (assessRisks (Num 40) (Num 0) (Num 0) (Num 0)) \<noteq> Medium \<and>
   crackingRisk (assessRisks (Num 60) (Num 0) (Num 0) (Num 0)) \<noteq> High"
  by (simp add: assessRisks_def Let_def)

text \<open>
  Claim C3, amended: whatever the other three inputs are (special values included), the
  cracking risk at a surface
  temperature of exactly 40 is Low, at exactly 60 it is Medium, and at 39.999 it is Low.
\<close>

theorem assessRisks_boundary:
  "crackingRisk (assessRisks (Num 40) emcAvg emcPk cumUV) = Low \<and>
   crackingRisk (assessRisks (Num 60) emcAvg emcPk cumUV) = Medium \<and>
   crackingRisk (assessRisks (Num 39.999) emcAvg emcPk cumUV) = Low"
  by (simp add: assessRisks_def Let_def)

text \<open>
  For finite inputs, negative ones included, the aging rate is finite and at least 1.
\<close>

lemma assessRisks_agingRate_finite:
  "\<exists>r. agingRate (assessRisks (Num surfaceTemp) (Num emcAvg) (Num emcPk) (Num cumUV)) = Num r \<and>
       1 \<le> r"
  by (simp add: assessRisks_def Let_def jsSub_def jsMax_def)

lemma jsAdd_NaN_right: "jsAdd a NaN = NaN"
  by (cases a) simp_all

lemma surfaceTemperatureNumber_NaN:
  "surfaceTemperatureNumber airTemp solarRad
     \<lparr>albedo = 1, emissivity = 0, materialType = material\<rparr> = NaN"
  by (simp add: surfaceTemperatureNumber_def calculateSurfaceTemperature_def
      divisionByZeroValue_def)

text \<open>
  Claim C7 does not hold of the code: \<open>Math.max(1, NaN)\<close> is \<open>NaN\<close>, and \<open>NaN\<close> is
  not at least 1. With albedo 1 and emissivity 0, both inside the declared range [0, 1],
  the surface temperature of every climate record is 0/0, that is \<open>NaN\<close>, and the
  aging rate that \<open>assessRisks\<close> returns for it in \<open>processClimateData\<close> is \<open>NaN\<close>.
\<close>

theorem assessRisks_agingRate_NaN:
  "agingRate (assessRisks NaN emcAvg emcPk cumUV) = NaN \<and>
   \<not> jsGe (agingRate (assessRisks NaN emcAvg emcPk cumUV)) (Num 1) \<and>
   map (\<lambda>r. agingRate (riskAssessment r))
     (processClimateData [d] \<lparr>albedo = 1, emissivity = 0, materialType = ''metal''\<rparr>) = [NaN]"
proof -
  have a: "agingRate (assessRisks NaN emcAvg emcPk cumUV) = NaN" for emcAvg emcPk cumUV
    by (simp add: assessRisks_def Let_def jsSub_def jsMax_def jsAdd_NaN_right)
  have "\<not> jsGe NaN (Num 1)" by (simp add: jsGe_def)
  with a show ?thesis
    by (simp add: processClimateData_def deriveRecord_def Let_def
        surfaceTemperatureNumber_NaN)
qed

subsection \<open>Surface temperature\<close>

text \<open>
  Claim C9: the division of \<open>calculateSurfaceTemperature\<close> is by
  \<open>emissivity * sigma * 20\<close>. With a non-zero emissivity the result is the finite value
  of the formula; with emissivity zero the divisor is zero and the result is the error
  branch, and such an input exists inside the declared ranges (emissivity 0 in [0, 1],
  albedo below 1, positive solar radiation).
\<close>

theorem calculateSurfaceTemperature_division:
  "(emissivity properties \<noteq> 0 \<longrightarrow>
      calculateSurfaceTemperature airTemp solarRad properties =
        Inr (airTemp +
             solarRad * (1 - albedo properties) / (emissivity properties * sigma * 20) * 0.1)) \<and>
   (emissivity properties = 0 \<longrightarrow>
      calculateSurfaceTemperature airTemp solarRad properties = Inl DivisionByZero) \<and>
   (\<exists>p s. 0 \<le> emissivity p \<and> emissivity p \<le> 1 \<and> albedo p < 1 \<and> 0 < s \<and>
      calculateSurfaceTemperature airTemp s p = Inl DivisionByZero)"
proof -
  have "calculateSurfaceTemperature airTemp 300
          \<lparr>albedo = 0.25, emissivity = 0, materialType = ''wood''\<rparr> = Inl DivisionByZero"
    by (simp add: calculateSurfaceTemperature_def)
  then have "\<exists>p s. 0 \<le> emissivity p \<and> emissivity p \<le> 1 \<and> albedo p < 1 \<and> (0::real) < s \<and>
      calculateSurfaceTemperature airTemp s p = Inl DivisionByZero"
    by (intro exI [of _ "\<lparr>albedo = 0.25, emissivity = 0, materialType = ''wood''\<rparr>"]
          exI [of _ "300"]) simp
  then show ?thesis
    by (simp add: calculateSurfaceTemperature_def Let_def sigma_def)
qed

theorem calculateSurfaceTemperature_division_witness:
  "calculateSurfaceTemperature 25 300
     \<lparr>albedo = 0.25, emissivity = 0.9, materialType = ''wood''\<rparr> =
     Inr (25 + 300 * (1 - 0.25) / (0.9 * sigma * 20) * 0.1) \<and>
   calculateSurfaceTemperature 25 300
     \<lparr>albedo = 0.25, emissivity = 0, materialType = ''wood''\<rparr> = Inl DivisionByZero"
  using calculateSurfaceTemperature_division
          [of "\<lparr>albedo = 0.25, emissivity = 0.9, materialType = ''wood''\<rparr>" 25 300]
        calculateSurfaceTemperature_division
          [of "\<lparr>albedo = 0.25, emissivity = 0, materialType = ''wood''\<rparr>" 25 300]
  by simp

subsection \<open>Equilibrium moisture content\<close>

lemma emcNumerator_pos: "0 < emcNumerator r"
proof -
  have "emcNumerator r =
      0.00415 * (r + 0.452 / (2 * 0.00415))^2 + (330 - 0.452^2 / (4 * 0.00415))"
    by (simp add: emcNumerator_def power2_eq_square algebra_simps)
  moreover have "0 \<le> 0.00415 * (r + 0.452 / (2 * 0.00415))^2"
    by simp
  moreover have "(0::real) < 330 - 0.452^2 / (4 * 0.00415)"
    by (simp add: power2_eq_square)
  ultimately show ?thesis by linarith
qed

lemma emcDenominator_pos: "0 < emcDenominator r"
proof -
  have "emcDenominator r =
      0.0135 * (r + 1.27 / (2 * 0.0135))^2 + (100 - 1.27^2 / (4 * 0.0135))"
    by (simp add: emcDenominator_def power2_eq_square algebra_simps)
  moreover have "0 \<le> 0.0135 * (r + 1.27 / (2 * 0.0135))^2"
    by simp
  moreover have "(0::real) < 100 - 1.27^2 / (4 * 0.0135)"
    by (simp add: power2_eq_square)
  ultimately show ?thesis by linarith
qed

text \<open>The floor at 0 never applies to the average: the quotient is positive.\<close>

lemma average_calculateEMC:
  "average (calculateEMC t h) = emcNumerator (min h 95) / emcDenominator (min h 95)"
proof -
  have "0 \<le> emcNumerator (min h 95) / emcDenominator (min h 95)"
    using emcNumerator_pos [of "min h 95"] emcDenominator_pos [of "min h 95"] by simp
  then show ?thesis
    by (simp add: calculateEMC_def Let_def emcNumerator_def emcDenominator_def max_def)
qed

lemma emc_cross_difference:
  "emcNumerator a * emcDenominator b - emcNumerator b * emcDenominator a =
     (b - a) * (373.9 + 4.04 * (a + b) + 0.0008315 * (a * b))"
  unfolding emcNumerator_def emcDenominator_def by (simp add: field_simps)

lemma emc_quotient_antimono:
  assumes "0 \<le> a" and "a \<le> b"
  shows "emcNumerator b / emcDenominator b \<le> emcNumerator a / emcDenominator a"
proof -
  have "0 \<le> a * b" using assms by simp
  then have "0 \<le> 0.0008315 * (a * b)" by simp
  moreover have "0 \<le> 4.04 * (a + b)" using assms by simp
  ultimately have "0 \<le> 373.9 + 4.04 * (a + b) + 0.0008315 * (a * b)" by linarith
  then have "0 \<le> (b - a) * (373.9 + 4.04 * (a + b) + 0.0008315 * (a * b))"
    using assms by simp
  then have "emcNumerator b * emcDenominator a \<le> emcNumerator a * emcDenominator b"
    using emc_cross_difference [of a b] by linarith
  then show ?thesis
    using emcDenominator_pos [of a] emcDenominator_pos [of b]
    by (simp add: frac_le_eq field_simps)
qed

lemma emc_quotient_strict:
  assumes "0 \<le> a" and "a < b"
  shows "emcNumerator b / emcDenominator b < emcNumerator a / emcDenominator a"
proof -
  have "0 \<le> a * b" using assms by simp
  then have "0 \<le> 0.0008315 * (a * b)" by simp
  moreover have "0 \<le> 4.04 * (a + b)" using assms by simp
  ultimately have "0 < 373.9 + 4.04 * (a + b) + 0.0008315 * (a * b)" by linarith
  then have "0 < (b - a) * (373.9 + 4.04 * (a + b) + 0.0008315 * (a * b))"
    using assms by simp
  then have "emcNumerator b * emcDenominator a < emcNumerator a * emcDenominator b"
    using emc_cross_difference [of a b] by linarith
  then show ?thesis
    using emcDenominator_pos [of a] emcDenominator_pos [of b]
    by (simp add: frac_less_eq field_simps)
qed

text \<open>
  Claim C5, as stated, is false: the average computed by \<open>calculateEMC\<close> at humidity 0
  (3.3) is greater than at humidity 60 (about 1.66), so it is not non-decreasing below 95.
\<close>

theorem calculateEMC_average_counterexample:
  "\<not> average (calculateEMC 20 0) \<le> average (calculateEMC 20 60)"
  by (simp add: calculateEMC_def Let_def)

text \<open>
  Claim C5, amended: for every temperature, the average computed by \<open>calculateEMC\<close> is
  monotonically non-increasing (strictly decreasing) in humidity for humidity between 0
  and 95, and constant, equal to its value at 95, for all humidity above 95.
\<close>

theorem calculateEMC_average_monotone:
  "(0 \<le> h1 \<and> h1 \<le> h2 \<and> h2 \<le> 95 \<longrightarrow>
      average (calculateEMC t2 h2) \<le> average (calculateEMC t1 h1)) \<and>
   (0 \<le> h1 \<and> h1 < h2 \<and> h2 \<le> 95 \<longrightarrow>
      average (calculateEMC t2 h2) < average (calculateEMC t1 h1)) \<and>
   (95 \<le> h \<longrightarrow> average (calculateEMC t1 h) = average (calculateEMC t2 95))"
  using emc_quotient_antimono [of h1 h2] emc_quotient_strict [of h1 h2]
  by (simp add: average_calculateEMC min_def)

theorem calculateEMC_average_monotone_witness:
  "average (calculateEMC 30 60) \<le> average (calculateEMC 20 10) \<and>
   average (calculateEMC 30 60) < average (calculateEMC 20 10) \<and>
   average (calculateEMC 20 100) = average (calculateEMC 30 95)"
  using calculateEMC_average_monotone [of 10 60 30 20 100]
  by simp

section \<open>Properties of the route processing\<close>

subsection \<open>aggregateByDay\<close>

lemma foldl_add_sum_list:
  "foldl (\<lambda>total p. total + f p) a ps = a + sum_list (map f ps)"
  for a :: real
  by (induction ps arbitrary: a) simp_all

lemma map_fst_pushToGroup:
  "map fst (pushToGroup d p G) = (if d \<in> fst ` set G then map fst G else map fst G @ [d])"
  by (induction d p G rule: pushToGroup.induct) auto

lemma map_of_pushToGroup:
  "map_of (pushToGroup d p G) =
     (map_of G)(d \<mapsto> (case map_of G d of None \<Rightarrow> [p] | Some qs \<Rightarrow> qs @ [p]))"
  by (induction d p G rule: pushToGroup.induct) (auto simp: fun_eq_iff)

lemma dateGroupsOf_map_of:
  "dateGroupsOf day ps G \<longleftrightarrow>
     distinct (map fst G) \<and>
     (\<forall>d. map_of G d = (if d \<in> day ` set ps then Some (filter (\<lambda>p. day p = d) ps) else None))"
proof
  assume a: "dateGroupsOf day ps G"
  then have d: "distinct (map fst G)" and k: "fst ` set G = day ` set ps"
    and e: "\<forall>e \<in> set G. snd e = filter (\<lambda>p. day p = fst e) ps"
    by (simp_all add: dateGroupsOf_def list_all_iff)
  have "map_of G x = (if x \<in> day ` set ps then Some (filter (\<lambda>p. day p = x) ps) else None)" for x
  proof (cases "x \<in> day ` set ps")
    case True
    with k obtain qs where "(x, qs) \<in> set G" by force
    with d e have "map_of G x = Some (filter (\<lambda>p. day p = x) ps)" by force
    with True show ?thesis by simp
  next
    case False
    with k have "x \<notin> fst ` set G" by simp
    then have "map_of G x = None" by (simp add: map_of_eq_None_iff)
    with False show ?thesis by simp
  qed
  with d show "distinct (map fst G) \<and>
     (\<forall>d. map_of G d = (if d \<in> day ` set ps then Some (filter (\<lambda>p. day p = d) ps) else None))"
    by simp
next
  assume a: "distinct (map fst G) \<and>
     (\<forall>d. map_of G d = (if d \<in> day ` set ps then Some (filter (\<lambda>p. day p = d) ps) else None))"
  then have d: "distinct (map fst G)"
    and m: "\<And>x. map_of G x = (if x \<in> day ` set ps then Some (filter (\<lambda>p. day p = x) ps) else None)"
    by simp_all
  have "fst ` set G = day ` set ps"
  proof -
    have "x \<in> fst ` set G \<longleftrightarrow> x \<in> day ` set ps" for x
      using m [of x] map_of_eq_None_iff [of G x] by (auto split: if_splits)
    then show ?thesis by blast
  qed
  moreover have "snd e = filter (\<lambda>p. day p = fst e) ps" if "e \<in> set G" for e
  proof -
    have "map_of G (fst e) = Some (snd e)"
      using map_of_is_SomeI [OF d, of "fst e" "snd e"] that by simp
    with m [of "fst e"] show ?thesis by (auto split: if_splits)
  qed
  ultimately show "dateGroupsOf day ps G"
    using d by (simp add: dateGroupsOf_def list_all_iff)
qed

lemma dateGroupsOf_push:
  assumes "dateGroupsOf day ps G"
  shows "dateGroupsOf day (ps @ [p]) (pushToGroup (day p) p G)"
proof -
  from assms have d: "distinct (map fst G)"
    and m: "\<And>x. map_of G x = (if x \<in> day ` set ps then Some (filter (\<lambda>p. day p = x) ps) else None)"
    by (simp_all add: dateGroupsOf_map_of)
  have "distinct (map fst (pushToGroup (day p) p G))"
    using d by (auto simp: map_fst_pushToGroup)
  moreover have "map_of (pushToGroup (day p) p G) x =
      (if x \<in> day ` set (ps @ [p]) then Some (filter (\<lambda>q. day q = x) (ps @ [p])) else None)" for x
  proof -
    have "filter (\<lambda>q. day q = day p) ps = []" if "day p \<notin> day ` set ps"
    proof -
      have "day q \<noteq> day p" if "q \<in> set ps" for q
      proof
        assume "day q = day p"
        moreover from \<open>q \<in> set ps\<close> have "day q \<in> day ` set ps" by (rule imageI)
        ultimately show False using \<open>day p \<notin> day ` set ps\<close> by simp
      qed
      then show ?thesis by (simp add: filter_empty_conv)
    qed
    then show ?thesis
      using m [of x] m [of "day p"] by (auto simp: map_of_pushToGroup)
  qed
  ultimately show ?thesis by (simp add: dateGroupsOf_map_of)
qed

lemma groupByDate_groups:
  assumes "\<forall>p \<in> set rest. fmt (timestamp p) ''yyyy-MM-dd'' = Some (day p)"
    and "dateGroupsOf day done G"
  shows "\<exists>G'. groupByDate fmt rest G = Inr G' \<and> dateGroupsOf day (done @ rest) G'"
  using assms
proof (induction rest arbitrary: "done" G)
  case Nil
  then show ?case by simp
next
  case (Cons p rest)
  have "dateGroupsOf day (done @ [p]) (pushToGroup (day p) p G)"
    using Cons.prems(2) by (rule dateGroupsOf_push)
  from Cons.IH [OF _ this] Cons.prems(1) show ?case by simp
qed

lemma groupByDate_fails:
  "\<exists>p \<in> set ps. fmt (timestamp p) ''yyyy-MM-dd'' = None \<Longrightarrow> groupByDate fmt ps G = Inl RangeError"
  by (induction ps arbitrary: G) (auto split: option.splits)

lemma groupByDate_nonempty:
  "groupByDate fmt ps G = Inr G' \<Longrightarrow> \<forall>e \<in> set G. snd e \<noteq> [] \<Longrightarrow> \<forall>e \<in> set G'. snd e \<noteq> []"
proof (induction ps arbitrary: G)
  case Nil
  then show ?case by simp
next
  case (Cons p ps)
  from Cons.prems(1) obtain d where d: "fmt (timestamp p) ''yyyy-MM-dd'' = Some d"
    and g: "groupByDate fmt ps (pushToGroup d p G) = Inr G'"
    by (auto split: option.splits)
  have "\<forall>e \<in> set (pushToGroup d p G). snd e \<noteq> []"
    using Cons.prems(2) by (induction d p G rule: pushToGroup.induct) auto
  from Cons.IH [OF g this] show ?case .
qed


lemma dateFnsFormat_samples:
  "dateFnsFormat 0 ''2024-01-05T08:00:00Z'' ''yyyy-MM-dd'' = Some ''2024-01-05''"
  "dateFnsFormat 0 ''2024-01-05T18:30:00Z'' ''yyyy-MM-dd'' = Some ''2024-01-05''"
  "dateFnsFormat 0 ''2024-01-06T09:00:00Z'' ''yyyy-MM-dd'' = Some ''2024-01-06''"
  "dateFnsFormat 0 ''2024-01-05T23:30:00-05:00'' ''yyyy-MM-dd'' = Some ''2024-01-06''"
  "dateFnsFormat 0 ''yesterday'' ''yyyy-MM-dd'' = None"
  by code_simp+

lemma aggregateByDay_all_dates_valid:
  assumes "\<forall>p \<in> set samples. fmt (timestamp p) ''yyyy-MM-dd'' = Some (day p)"
  shows "\<exists>ds. distinct ds \<and> set ds = day ` set samples \<and>
           aggregateByDay fmt samples = Inr (map (dailyMean day samples) ds)"
proof -
  have "dateGroupsOf day [] []" by (simp add: dateGroupsOf_def)
  from groupByDate_groups [of samples fmt day "[]" "[]"] assms this
  obtain G where G: "groupByDate fmt samples [] = Inr G" and inv: "dateGroupsOf day samples G"
    by auto
  from inv have d: "distinct (map fst G)" and k: "set (map fst G) = day ` set samples"
    and e: "\<forall>e \<in> set G. snd e = filter (\<lambda>p. day p = fst e) samples"
    by (simp_all add: dateGroupsOf_def list_all_iff)
  have "map dailyPoint G = map (dailyMean day samples) (map fst G)"
    using e by (auto simp: dailyPoint_def dailyMean_def Let_def foldl_add_sum_list split: prod.splits)
  with G d k show ?thesis
    by (intro exI [of _ "map fst G"]) (simp add: aggregateByDay_def)
qed

text \<open>
  Claim C4, as stated, is false. The date a sample is filed under is not the date its
  timestamp writes but the date of that instant on the clock of the machine: on a machine
  on UTC, the one sample \<open>2024-01-05T23:30:00-05:00\<close> gives the point
  \<open>2024-01-06T12:00:00Z\<close>, a date that is not present in the input. And not every list
  of samples gives points: a timestamp that is no date (the ingestion admits every
  non-empty text) makes \<open>aggregateByDay\<close> throw.
\<close>

theorem aggregateByDay_date_counterexample:
  "datePortion eveningSample = ''2024-01-05'' \<and>
   aggregateByDay (dateFnsFormat 0) [eveningSample] =
     Inr [\<lparr>latitude = 10, longitude = 20, timestamp = ''2024-01-06T12:00:00Z''\<rparr>] \<and>
   aggregateByDay (dateFnsFormat 0) [eveningSample] \<noteq>
     Inr [dailyMean datePortion [eveningSample] ''2024-01-05''] \<and>
   aggregateByDay (dateFnsFormat 0) [invalidSample] = Inl RangeError"
  by (simp add: aggregateByDay_def dailyPoint_def dailyMean_def datePortion_def
      eveningSample_def invalidSample_def dateFnsFormat_samples)

text \<open>
  Claim C4, amended: for every list of samples whose timestamps \<open>format(parseISO(ts),
  'yyyy-MM-dd')\<close> can write as a date (\<open>day p\<close> that date: the calendar date of the
  sample's instant on the machine's clock), \<open>aggregateByDay\<close> returns one point for
  each distinct such date of the input and no other: the dates \<open>ds\<close> are pairwise
  distinct and are exactly the dates \<open>day p\<close> of the samples, and the point of a date
  has the arithmetic mean of the latitudes and of the longitudes of the samples of that
  date, and the timestamp of that date at 12:00:00Z. Where a timestamp cannot be written
  as a date, \<open>aggregateByDay\<close> throws a RangeError.
\<close>

theorem aggregateByDay_one_point_per_local_date:
  "((\<forall>p \<in> set samples. fmt (timestamp p) ''yyyy-MM-dd'' = Some (day p)) \<longrightarrow>
      (\<exists>ds. distinct ds \<and> set ds = day ` set samples \<and>
         aggregateByDay fmt samples = Inr (map (dailyMean day samples) ds))) \<and>
   ((\<exists>p \<in> set samples. fmt (timestamp p) ''yyyy-MM-dd'' = None) \<longrightarrow>
      aggregateByDay fmt samples = Inl RangeError)"
  using aggregateByDay_all_dates_valid [of samples fmt day]
  by (simp add: aggregateByDay_def groupByDate_fails)

theorem aggregateByDay_one_point_per_local_date_witness:
  "(\<exists>ds. distinct ds \<and> set ds = {''2024-01-05'', ''2024-01-06''} \<and>
      aggregateByDay (dateFnsFormat 0) [sampleA, eveningSample, sampleB, sampleC] =
        Inr (map (dailyMean utcDay [sampleA, eveningSample, sampleB, sampleC]) ds)) \<and>
   aggregateByDay (dateFnsFormat 0) [sampleA, invalidSample] = Inl RangeError"
proof -
  have days: "utcDay sampleA = ''2024-01-05''" "utcDay sampleB = ''2024-01-05''"
    "utcDay sampleC = ''2024-01-06''" "utcDay eveningSample = ''2024-01-06''"
    by (simp_all add: utcDay_def sampleA_def sampleB_def sampleC_def eveningSample_def
        dateFnsFormat_samples)
  have valid: "\<forall>p \<in> set [sampleA, eveningSample, sampleB, sampleC].
      dateFnsFormat 0 (timestamp p) ''yyyy-MM-dd'' = Some (utcDay p)"
    by (simp add: utcDay_def sampleA_def sampleB_def sampleC_def eveningSample_def
        dateFnsFormat_samples)
  have invalid: "\<exists>p \<in> set [sampleA, invalidSample].
      dateFnsFormat 0 (timestamp p) ''yyyy-MM-dd'' = None"
    by (simp add: invalidSample_def dateFnsFormat_samples)
  have dates: "utcDay ` set [sampleA, eveningSample, sampleB, sampleC] =
      {''2024-01-05'', ''2024-01-06''}"
    by (auto simp: days)
  from aggregateByDay_one_point_per_local_date
         [of "[sampleA, eveningSample, sampleB, sampleC]" "dateFnsFormat 0" utcDay]
       aggregateByDay_one_point_per_local_date
         [of "[sampleA, invalidSample]" "dateFnsFormat 0" utcDay]
       valid invalid dates
  show ?thesis by metis
qed

text \<open>
  The same input, evaluated: the evening sample is filed under the next day and takes
  part in that day's mean.
\<close>

lemma aggregateByDay_example:
  "aggregateByDay (dateFnsFormat 0) [sampleA, eveningSample, sampleB, sampleC] =
     Inr [\<lparr>latitude = 10.01, longitude = 20.01, timestamp = ''2024-01-05T12:00:00Z''\<rparr>,
          \<lparr>latitude = 10.5, longitude = 20.5, timestamp = ''2024-01-06T12:00:00Z''\<rparr>]"
  by (simp add: aggregateByDay_def dailyPoint_def sampleA_def sampleB_def sampleC_def
      eveningSample_def dateFnsFormat_samples)

subsection \<open>groupPointsByProximity\<close>

lemma calculateDistance_less_iff:
  "calculateDistance a b c d < t \<longleftrightarrow> 0 < t \<and> (c - a)\<^sup>2 + (d - b)\<^sup>2 < t\<^sup>2"
proof (cases "0 < t")
  case True
  then have "sqrt ((c - a)\<^sup>2 + (d - b)\<^sup>2) < t \<longleftrightarrow> sqrt ((c - a)\<^sup>2 + (d - b)\<^sup>2) < sqrt (t\<^sup>2)"
    by simp
  also have "\<dots> \<longleftrightarrow> (c - a)\<^sup>2 + (d - b)\<^sup>2 < t\<^sup>2"
    by (rule real_sqrt_less_iff)
  finally show ?thesis using True by (simp add: calculateDistance_def)
next
  case False
  have "0 \<le> sqrt ((c - a)\<^sup>2 + (d - b)\<^sup>2)" by simp
  with False have "\<not> sqrt ((c - a)\<^sup>2 + (d - b)\<^sup>2) < t" by linarith
  with False show ?thesis by (simp add: calculateDistance_def)
qed

lemma scanStep_near:
  "scanStep points threshold i j (g, P) =
     (if j \<notin> P \<and> near points threshold i j then (g @ [j], insert j P) else (g, P))"
  by (simp add: scanStep_def near_def)

lemma fold_scanStep:
  "distinct js \<Longrightarrow>
   fold (scanStep points threshold i) js (g, P) =
     (g @ filter (\<lambda>j. j \<notin> P \<and> near points threshold i j) js,
      P \<union> set (filter (\<lambda>j. j \<notin> P \<and> near points threshold i j) js))"
proof (induction js arbitrary: g P)
  case Nil
  then show ?case by simp
next
  case (Cons j js)
  have same: "filter (\<lambda>k. k \<notin> insert j P \<and> near points threshold i k) js =
              filter (\<lambda>k. k \<notin> P \<and> near points threshold i k) js"
    using Cons.prems by (intro filter_cong) auto
  have same': "filter (\<lambda>k. k \<noteq> j \<and> k \<notin> P \<and> near points threshold i k) js =
              filter (\<lambda>k. k \<notin> P \<and> near points threshold i k) js"
    using Cons.prems by (intro filter_cong) auto
  have same_set: "{x \<in> set js. x \<noteq> j \<and> x \<notin> P \<and> near points threshold i x} =
                  {x \<in> set js. x \<notin> P \<and> near points threshold i x}"
    using Cons.prems by auto
  show ?case
  proof (cases "j \<notin> P \<and> near points threshold i j")
    case True
    then show ?thesis
      using Cons.IH [of "g @ [j]" "insert j P"] Cons.prems
      by (simp add: scanStep_near same' same_set)
  next
    case False
    then have "scanStep points threshold i j (g, P) = (g, P)"
      by (simp add: scanStep_near)
    with False show ?thesis
      using Cons.IH [of g P] Cons.prems by auto
  qed
qed

lemma seedStep_eq:
  "seedStep points threshold i (groups, P) =
     (if i \<in> P then (groups, P)
      else (groups @ [i # members points threshold i P],
            insert i P \<union> set (members points threshold i P)))"
  by (simp add: seedStep_def fold_scanStep members_def)

lemma members_props:
  "distinct (members points threshold i P)"
  "set (members points threshold i P) \<inter> insert i P = {}"
  "\<forall>j \<in> set (members points threshold i P). i < j \<and> j < length points \<and> near points threshold i j"
  by (auto simp: members_def)

lemma seedStep_inv:
  assumes "groupsInv points threshold st" and "i < length points"
  shows "groupsInv points threshold (seedStep points threshold i st)"
proof -
  obtain groups P where st: "st = (groups, P)" by (cases st)
  show ?thesis
  proof (cases "i \<in> P")
    case True
    then show ?thesis using assms st by (simp add: seedStep_eq)
  next
    case False
    let ?m = "members points threshold i P"
    from assms st have P: "P = set (concat groups)" and d: "distinct (concat groups)"
      by (simp_all add: groupsInv_def)
    have "distinct (concat groups @ i # ?m)"
      using d False P members_props(1) [of points threshold i P]
        members_props(2) [of points threshold i P] members_props(3) [of points threshold i P]
      by auto
    moreover have "list_all (\<lambda>j. i < j \<and> near points threshold i j) ?m"
      using members_props(3) [of points threshold i P] by (simp add: list_all_iff)
    moreover have "list_all (\<lambda>k. k < length points) ?m"
      using members_props(3) [of points threshold i P] by (simp add: list_all_iff)
    ultimately show ?thesis
      using assms st False P by (auto simp: seedStep_eq groupsInv_def)
  qed
qed

lemma seedStep_processed:
  "snd st \<subseteq> snd (seedStep points threshold i st) \<and> i \<in> snd (seedStep points threshold i st)"
  by (cases st) (auto simp: seedStep_eq)

lemma fold_seedStep_inv:
  "groupsInv points threshold st \<Longrightarrow> \<forall>i \<in> set is. i < length points \<Longrightarrow>
   groupsInv points threshold (fold (seedStep points threshold) is st)"
  by (induction "is" arbitrary: st) (simp_all add: seedStep_inv)

lemma fold_seedStep_processed:
  "snd st \<union> set is \<subseteq> snd (fold (seedStep points threshold) is st)"
proof (induction "is" arbitrary: st)
  case Nil
  then show ?case by simp
next
  case (Cons i "is")
  show ?case
    using Cons.IH [of "seedStep points threshold i st"] seedStep_processed [of st points threshold i]
    by auto
qed

lemma groupIndices_inv:
  "groupsInv points threshold
     (groupIndicesByProximity points threshold, {0 ..< length points})"
proof -
  let ?st = "fold (seedStep points threshold) [0 ..< length points] ([], {})"
  have inv: "groupsInv points threshold ?st"
    by (rule fold_seedStep_inv) (simp_all add: groupsInv_def)
  have sub: "{0 ..< length points} \<subseteq> snd ?st"
    using fold_seedStep_processed [of "([], {})" "[0 ..< length points]" points threshold] by simp
  obtain groups P where st: "?st = (groups, P)" by (cases ?st)
  from inv st have "P = set (concat groups)" "list_all (\<lambda>k. k < length points) (concat groups)"
    by (simp_all add: groupsInv_def)
  then have "P \<subseteq> {0 ..< length points}" by (auto simp: list_all_iff)
  with sub st have "P = {0 ..< length points}" by auto
  with inv st show ?thesis by (simp add: groupIndicesByProximity_def)
qed

lemma groupIndices_mset:
  "mset (concat (groupIndicesByProximity points threshold)) = mset [0 ..< length points]"
proof -
  have "set (concat (groupIndicesByProximity points threshold)) = set [0 ..< length points]"
       "distinct (concat (groupIndicesByProximity points threshold))"
    using groupIndices_inv [of points threshold] by (simp_all add: groupsInv_def)
  then show ?thesis
    by (metis distinct_upt set_eq_iff_mset_eq_distinct)
qed

lemma groupPoints_mset:
  "mset (concat (groupPointsByProximity points threshold)) = mset points"
proof -
  have "concat (groupPointsByProximity points threshold) =
        map (\<lambda>i. points ! i) (concat (groupIndicesByProximity points threshold))"
    by (simp add: groupPointsByProximity_def map_concat)
  then have "mset (concat (groupPointsByProximity points threshold)) =
        image_mset (\<lambda>i. points ! i) (mset [0 ..< length points])"
    by (simp add: groupIndices_mset)
  also have "\<dots> = mset (map (\<lambda>i. points ! i) [0 ..< length points])" by simp
  also have "\<dots> = mset points" by (simp add: map_nth)
  finally show ?thesis .
qed

lemma groupIndices_nonempty: "[] \<notin> set (groupIndicesByProximity points threshold)"
  using groupIndices_inv [of points threshold] by (auto simp: groupsInv_def list_all_iff)

lemma concat_index_unique:
  "distinct (concat gs) \<Longrightarrow> k < length gs \<Longrightarrow> l < length gs \<Longrightarrow>
   i \<in> set (gs ! k) \<Longrightarrow> i \<in> set (gs ! l) \<Longrightarrow> k = l"
proof (induction gs arbitrary: k l)
  case Nil
  then show ?case by simp
next
  case (Cons g gs)
  have disj: "set g \<inter> set (concat gs) = {}" and d: "distinct (concat gs)"
    using Cons.prems(1) by auto
  show ?case
  proof (cases k)
    case 0
    show ?thesis
    proof (cases l)
      case 0
      with \<open>k = 0\<close> show ?thesis by simp
    next
      case (Suc l')
      with Cons.prems have "i \<in> set (concat gs)" by auto
      moreover from \<open>k = 0\<close> Cons.prems have "i \<in> set g" by simp
      ultimately show ?thesis using disj by auto
    qed
  next
    case (Suc k')
    show ?thesis
    proof (cases l)
      case 0
      from Suc Cons.prems have "i \<in> set (concat gs)" by auto
      moreover from \<open>l = 0\<close> Cons.prems have "i \<in> set g" by simp
      ultimately show ?thesis using disj by auto
    next
      case (Suc l')
      with \<open>k = Suc k'\<close> Cons.prems Cons.IH [OF d, of k' l'] show ?thesis by simp
    qed
  qed
qed

lemma unique_group:
  assumes "distinct (concat gs)" and "i \<in> set (concat gs)"
  shows "\<exists>!k. k < length gs \<and> i \<in> set (gs ! k)"
proof -
  from assms(2) obtain g where "g \<in> set gs" "i \<in> set g" by auto
  then obtain k where k: "k < length gs" "i \<in> set (gs ! k)"
    by (auto simp: in_set_conv_nth)
  then show ?thesis
    using concat_index_unique [OF assms(1)] by blast
qed

lemma groupIndices_seed_near:
  assumes "g \<in> set (groupIndicesByProximity points threshold)" and "j \<in> set (tl g)"
  shows "hd g < j \<and> near points threshold (hd g) j"
  using groupIndices_inv [of points threshold] assms
  by (auto simp: groupsInv_def list_all_iff)

lemma groupIndices_example:
  "groupIndicesByProximity [pointA, pointB, pointC] 2 = [[0, 2], [1]]"
  by (simp add: groupIndicesByProximity_def seedStep_def scanStep_def upt_rec
      calculateDistance_less_iff pointA_def pointB_def pointC_def)

text \<open>
  Claim C6: for every list of points and every threshold, the groups partition the
  input. Every index below \<open>length points\<close> occurs exactly once in the groups taken
  together, so it lies in exactly one group, none is skipped and none is duplicated; the
  groups of points are the groups of indices read in \<open>points\<close>, and hold the input
  points with their multiplicities.
\<close>

theorem groupPointsByProximity_partition:
  "mset (concat (groupIndicesByProximity points threshold)) = mset [0 ..< length points] \<and>
   (\<forall>i < length points.
      \<exists>!k. k < length (groupIndicesByProximity points threshold) \<and>
           i \<in> set (groupIndicesByProximity points threshold ! k)) \<and>
   groupPointsByProximity points threshold =
     map (map (\<lambda>i. points ! i)) (groupIndicesByProximity points threshold) \<and>
   mset (concat (groupPointsByProximity points threshold)) = mset points"
proof -
  let ?gs = "groupIndicesByProximity points threshold"
  have d: "distinct (concat ?gs)" and s: "set (concat ?gs) = {0 ..< length points}"
    using groupIndices_inv [of points threshold] by (simp_all add: groupsInv_def)
  have "\<exists>!k. k < length ?gs \<and> i \<in> set (?gs ! k)" if "i < length points" for i
  proof (rule unique_group [OF d])
    from that s show "i \<in> set (concat ?gs)" by simp
  qed
  moreover have "groupPointsByProximity points threshold = map (map (\<lambda>i. points ! i)) ?gs"
    by (simp add: groupPointsByProximity_def)
  ultimately show ?thesis
    using groupIndices_mset [of points threshold] groupPoints_mset [of points threshold]
    by blast
qed

theorem groupPointsByProximity_partition_witness:
  "groupIndicesByProximity [pointA, pointB, pointC] 2 = [[0, 2], [1]] \<and>
   (\<exists>!k. k < length (groupIndicesByProximity [pointA, pointB, pointC] 2) \<and>
         2 \<in> set (groupIndicesByProximity [pointA, pointB, pointC] 2 ! k)) \<and>
   mset (concat (groupPointsByProximity [pointA, pointB, pointC] 2)) =
     mset [pointA, pointB, pointC]"
  using groupPointsByProximity_partition [of "[pointA, pointB, pointC]" 2]
    groupIndices_example
  by simp

text \<open>
  Claim C10: the comparison with the threshold is strict. In every group, each member
  after the seed (the head of the group) has a larger index than the seed and a distance
  to the seed strictly below the threshold; so an index whose point is at a distance
  exactly equal to the threshold from the seed is not among the members the seed
  collected, and the step of the inner loop leaves the group and the processed set as
  they are for such a point. The same holds for the groups of points.
\<close>

theorem groupPointsByProximity_strict:
  "(\<forall>g \<in> set (groupIndicesByProximity points threshold). \<forall>j \<in> set (tl g).
      hd g < j \<and>
      calculateDistance (latitude (points ! hd g)) (longitude (points ! hd g))
        (latitude (points ! j)) (longitude (points ! j)) < threshold) \<and>
   (\<forall>g \<in> set (groupIndicesByProximity points threshold). \<forall>j.
      calculateDistance (latitude (points ! hd g)) (longitude (points ! hd g))
        (latitude (points ! j)) (longitude (points ! j)) = threshold \<longrightarrow>
      j \<notin> set (tl g)) \<and>
   (calculateDistance (latitude (points ! i)) (longitude (points ! i))
        (latitude (points ! j)) (longitude (points ! j)) = threshold \<longrightarrow>
      scanStep points threshold i j st = st) \<and>
   (\<forall>g \<in> set (groupPointsByProximity points threshold). \<forall>q \<in> set (tl g).
      calculateDistance (latitude (hd g)) (longitude (hd g)) (latitude q) (longitude q)
        < threshold)"
proof -
  let ?gs = "groupIndicesByProximity points threshold"
  let ?dist = "\<lambda>i j. calculateDistance (latitude (points ! i)) (longitude (points ! i))
        (latitude (points ! j)) (longitude (points ! j))"
  have a: "hd g < j \<and> ?dist (hd g) j < threshold" if "g \<in> set ?gs" "j \<in> set (tl g)" for g j
    using groupIndices_seed_near [OF that] by (simp add: near_def)
  have b: "j \<notin> set (tl g)" if "g \<in> set ?gs" "?dist (hd g) j = threshold" for g j
  proof
    assume "j \<in> set (tl g)"
    from a [OF that(1) this] that(2) show False by simp
  qed
  have c: "scanStep points threshold i j st = st" if "?dist i j = threshold"
    using that by (cases st) (simp add: scanStep_def)
  have e: "calculateDistance (latitude (hd g)) (longitude (hd g)) (latitude q) (longitude q)
        < threshold"
    if "g \<in> set (groupPointsByProximity points threshold)" "q \<in> set (tl g)" for g q
  proof -
    from that(1) obtain h where h: "h \<in> set ?gs" "g = map (\<lambda>i. points ! i) h"
      by (auto simp: groupPointsByProximity_def)
    from h(1) have "h \<noteq> []" using groupIndices_nonempty [of points threshold] by auto
    with h(2) have hd: "hd g = points ! hd h" and tl: "tl g = map (\<lambda>i. points ! i) (tl h)"
      by (simp_all add: hd_map map_tl)
    from that(2) tl obtain j where "j \<in> set (tl h)" "q = points ! j" by auto
    with a [OF h(1), of j] hd show ?thesis by simp
  qed
  from a b c e show ?thesis by blast
qed

theorem groupPointsByProximity_strict_witness:
  "groupIndicesByProximity [pointA, pointB, pointC] 2 = [[0, 2], [1]] \<and>
   calculateDistance (latitude pointA) (longitude pointA) (latitude pointB) (longitude pointB)
     = 2 \<and>
   1 \<notin> set (tl [0, 2 :: nat]) \<and>
   calculateDistance (latitude pointA) (longitude pointA) (latitude pointC) (longitude pointC)
     < 2 \<and>
   scanStep [pointA, pointB, pointC] 2 0 1 ([0], {0}) = ([0], {0})"
proof -
  have d: "calculateDistance (latitude pointA) (longitude pointA)
             (latitude pointB) (longitude pointB) = 2"
    by (simp add: calculateDistance_def pointA_def pointB_def)
  have m: "[0, 2] \<in> set (groupIndicesByProximity [pointA, pointB, pointC] 2)"
    by (simp add: groupIndices_example)
  note t = groupPointsByProximity_strict [of "[pointA, pointB, pointC]" 2 0 1 "([0], {0})"]
  from t m have "calculateDistance (latitude pointA) (longitude pointA)
             (latitude pointC) (longitude pointC) < 2"
    by (auto simp: groupIndices_example)
  moreover from t d have "scanStep [pointA, pointB, pointC] 2 0 1 ([0], {0}) = ([0], {0})"
    by simp
  ultimately show ?thesis using d groupIndices_example by simp
qed

subsection \<open>fetchClimateData\<close>

lemma recordTag_climateRecord:
  "recordTag (climateRecord dayData dateKey d point t2m) = (d, latitude point, longitude point)"
  by (simp add: recordTag_def climateRecord_def)

lemma mapApiData_valid:
  assumes "\<forall>p \<in> set g. formatDate env (timestamp p) ''yyyyMMdd'' = Some (key p) \<and>
                        formatDate env (timestamp p) ''yyyy-MM-dd'' = Some (day p)"
  shows "\<exists>recs. mapApiData env dayData g results = (None, results @ recs) \<and>
           map recordTag recs = map (pointTag day) (filter (hasT2M dayData key) g)"
  using assms
proof (induction g arbitrary: results)
  case Nil
  then show ?case by simp
next
  case (Cons p g)
  from Cons.prems have k: "formatDate env (timestamp p) ''yyyyMMdd'' = Some (key p)"
    and d: "formatDate env (timestamp p) ''yyyy-MM-dd'' = Some (day p)"
    and rest: "\<forall>p \<in> set g. formatDate env (timestamp p) ''yyyyMMdd'' = Some (key p) \<and>
                        formatDate env (timestamp p) ''yyyy-MM-dd'' = Some (day p)"
    by simp_all
  show ?case
  proof (cases "lookupSeries dayData ''T2M'' (key p)")
    case None
    from Cons.IH [OF rest, of results] obtain recs where
      "mapApiData env dayData g results = (None, results @ recs)"
      "map recordTag recs = map (pointTag day) (filter (hasT2M dayData key) g)" by blast
    moreover from None have "\<not> hasT2M dayData key p" by (simp add: hasT2M_def)
    ultimately show ?thesis using None k by simp
  next
    case (Some t2m)
    let ?r = "climateRecord dayData (key p) (day p) p t2m"
    from Cons.IH [OF rest, of "results @ [?r]"] obtain recs where
      r: "mapApiData env dayData g (results @ [?r]) = (None, (results @ [?r]) @ recs)"
      "map recordTag recs = map (pointTag day) (filter (hasT2M dayData key) g)" by blast
    have "mapApiData env dayData (p # g) results = (None, results @ (?r # recs))"
      using Some k d r(1) by simp
    moreover have "map recordTag (?r # recs) =
        map (pointTag day) (filter (hasT2M dayData key) (p # g))"
    proof -
      from Some have "hasT2M dayData key p" by (simp add: hasT2M_def)
      then show ?thesis using r(2) by (simp add: pointTag_def recordTag_climateRecord)
    qed
    ultimately show ?thesis by blast
  qed
qed

lemma mockGroup_valid:
  assumes "\<forall>p \<in> set g. formatDate env (timestamp p) ''yyyy-MM-dd'' = Some (day p)"
  shows "\<exists>recs w'. mockGroup env g (results, w) = (None, results @ recs, w') \<and>
           map recordTag recs = map (pointTag day) g \<and> apiCalls w' = apiCalls w"
  using assms
proof (induction g arbitrary: results w)
  case Nil
  then show ?case by simp
next
  case (Cons p g)
  from Cons.prems have d: "formatDate env (timestamp p) ''yyyy-MM-dd'' = Some (day p)"
    and rest: "\<forall>p \<in> set g. formatDate env (timestamp p) ''yyyy-MM-dd'' = Some (day p)"
    by simp_all
  obtain r w1 where g: "generateMockClimateData env p w = (Inr r, w1)"
    and tag: "recordTag r = pointTag day p" and calls: "apiCalls w1 = apiCalls w"
    using d by (simp add: generateMockClimateData_def Let_def recordTag_def pointTag_def)
  from Cons.IH [OF rest, of "results @ [r]" w1] obtain recs w' where
    m: "mockGroup env g (results @ [r], w1) = (None, (results @ [r]) @ recs, w')"
    "map recordTag recs = map (pointTag day) g" "apiCalls w' = apiCalls w1" by blast
  have "mockGroup env (p # g) (results, w) = (None, results @ (r # recs), w')"
    using g m(1) by simp
  moreover have "map recordTag (r # recs) = map (pointTag day) (p # g)"
    using tag m(2) by simp
  ultimately show ?case using m(3) calls by metis
qed

lemma those_map_Some:
  "\<forall>x \<in> set xs. f x = Some (g x) \<Longrightarrow> those (map f xs) = Some (map g xs)"
  by (induction xs) simp_all

lemma callNASAPowerAPI_answer:
  "\<exists>w'. apiCalls w' = apiCalls w @ [Url lat lon s e] \<and>
     (case answer env (length (apiCalls w)) (Url lat lon s e) of
        None \<Rightarrow> \<exists>err. callNASAPowerAPI env lat lon s e w = (Inl err, w')
      | Some dayData \<Rightarrow> callNASAPowerAPI env lat lon s e w = (Inr dayData, w'))"
  by (rule exI [of _ "w\<lparr>apiCalls := apiCalls w @ [Url lat lon s e]\<rparr>"])
    (auto simp: callNASAPowerAPI_def answer_def Let_def
      split: FetchResult.splits option.splits)

lemma resolveGroup_kept:
  assumes "\<forall>p \<in> set g. formatDate env (timestamp p) ''yyyyMMdd'' = Some (key p) \<and>
                        formatDate env (timestamp p) ''yyyy-MM-dd'' = Some (day p)"
  shows "\<exists>recs w'. resolveGroup env g (results, w) = (None, results @ recs, w') \<and>
           map recordTag recs = map (pointTag day) (keptMembers env key (length (apiCalls w)) g) \<and>
           apiCalls w' = apiCalls w @ [groupUrl key g]"
proof -
  have keys: "those (map (\<lambda>p. formatDate env (timestamp p) ''yyyyMMdd'') g) = Some (map key g)"
    using assms by (intro those_map_Some) simp
  have days: "\<forall>p \<in> set g. formatDate env (timestamp p) ''yyyy-MM-dd'' = Some (day p)"
    using assms by simp
  let ?c = "calculateCenterPoint g"
  let ?s = "mathMin (map parseInt (map key g))"
  let ?e = "mathMax (map parseInt (map key g))"
  have url: "groupUrl key g = Url (latitude ?c) (longitude ?c) ?s ?e"
    by (simp add: groupUrl_def Let_def)
  from callNASAPowerAPI_answer [of w "latitude ?c" "longitude ?c" ?s ?e env]
  obtain w1 where calls: "apiCalls w1 = apiCalls w @ [groupUrl key g]"
    and call: "case answer env (length (apiCalls w)) (groupUrl key g) of
        None \<Rightarrow> \<exists>err. callNASAPowerAPI env (latitude ?c) (longitude ?c) ?s ?e w = (Inl err, w1)
      | Some dayData \<Rightarrow>
          callNASAPowerAPI env (latitude ?c) (longitude ?c) ?s ?e w = (Inr dayData, w1)"
    unfolding url by blast
  show ?thesis
  proof (cases "answer env (length (apiCalls w)) (groupUrl key g)")
    case None
    with call obtain err where
      "callNASAPowerAPI env (latitude ?c) (longitude ?c) ?s ?e w = (Inl err, w1)" by auto
    then have t: "tryGroup env g (results, w) = (Some err, results, w1)"
      by (simp add: tryGroup_def Let_def keys)
    from mockGroup_valid [OF days, of results w1] obtain recs w' where
      m: "mockGroup env g (results, w1) = (None, results @ recs, w')"
      "map recordTag recs = map (pointTag day) g" "apiCalls w' = apiCalls w1" by blast
    from t m(1) have "resolveGroup env g (results, w) = (None, results @ recs, w')"
      by (simp add: resolveGroup_def)
    moreover from None have "keptMembers env key (length (apiCalls w)) g = g"
      by (simp add: keptMembers_def)
    ultimately show ?thesis using m(2) m(3) calls by auto
  next
    case (Some dayData)
    with call have
      c: "callNASAPowerAPI env (latitude ?c) (longitude ?c) ?s ?e w = (Inr dayData, w1)" by simp
    from mapApiData_valid [OF assms, of dayData results] obtain recs where
      m: "mapApiData env dayData g results = (None, results @ recs)"
      "map recordTag recs = map (pointTag day) (filter (hasT2M dayData key) g)" by blast
    have "tryGroup env g (results, w) = (None, results @ recs, w1)"
      using c m(1) by (simp add: tryGroup_def Let_def keys)
    then have "resolveGroup env g (results, w) = (None, results @ recs, w1)"
      by (simp add: resolveGroup_def)
    moreover from Some have
      "keptMembers env key (length (apiCalls w)) g = filter (hasT2M dayData key) g"
      by (simp add: keptMembers_def)
    ultimately show ?thesis using m(2) calls by auto
  qed
qed

lemma resolveGroups_kept:
  assumes "\<forall>p \<in> set (concat gs). formatDate env (timestamp p) ''yyyyMMdd'' = Some (key p) \<and>
                        formatDate env (timestamp p) ''yyyy-MM-dd'' = Some (day p)"
  shows "\<exists>recs w'. resolveGroups env gs (results, w) = (None, results @ recs, w') \<and>
           map recordTag recs = map (pointTag day) (keptPoints env key (length (apiCalls w)) gs) \<and>
           apiCalls w' = apiCalls w @ map (groupUrl key) gs"
  using assms
proof (induction gs arbitrary: results w)
  case Nil
  then show ?case by simp
next
  case (Cons g gs)
  have vg: "\<forall>p \<in> set g. formatDate env (timestamp p) ''yyyyMMdd'' = Some (key p) \<and>
                        formatDate env (timestamp p) ''yyyy-MM-dd'' = Some (day p)"
    and vgs: "\<forall>p \<in> set (concat gs). formatDate env (timestamp p) ''yyyyMMdd'' = Some (key p) \<and>
                        formatDate env (timestamp p) ''yyyy-MM-dd'' = Some (day p)"
    using Cons.prems by simp_all
  from resolveGroup_kept [OF vg, of results w] obtain recs1 w1 where
    r1: "resolveGroup env g (results, w) = (None, results @ recs1, w1)"
    and t1: "map recordTag recs1 = map (pointTag day) (keptMembers env key (length (apiCalls w)) g)"
    and c1: "apiCalls w1 = apiCalls w @ [groupUrl key g]" by blast
  from c1 have n1: "length (apiCalls w1) = Suc (length (apiCalls w))" by simp
  from Cons.IH [OF vgs, of "results @ recs1" w1] obtain recs2 w2 where
    r2: "resolveGroups env gs (results @ recs1, w1) = (None, (results @ recs1) @ recs2, w2)"
    and t2: "map recordTag recs2 =
        map (pointTag day) (keptPoints env key (length (apiCalls w1)) gs)"
    and c2: "apiCalls w2 = apiCalls w1 @ map (groupUrl key) gs" by blast
  have "resolveGroups env (g # gs) (results, w) = (None, results @ (recs1 @ recs2), w2)"
    using r1 r2 by simp
  moreover have "map recordTag (recs1 @ recs2) =
      map (pointTag day) (keptPoints env key (length (apiCalls w)) (g # gs))"
    using t1 t2 n1 by simp
  moreover have "apiCalls w2 = apiCalls w @ map (groupUrl key) (g # gs)"
    using c1 c2 by simp
  ultimately show ?case by blast
qed

lemma kept_dropped_members:
  "mset (keptMembers env key n g) + mset (droppedMembers env key n g) = mset g"
  by (cases "answer env n (groupUrl key g)")
    (simp_all add: keptMembers_def droppedMembers_def)

lemma kept_dropped_points:
  "mset (keptPoints env key n gs) + mset (droppedPoints env key n gs) = mset (concat gs)"
proof (induction gs arbitrary: n)
  case Nil
  then show ?case by simp
next
  case (Cons g gs)
  have "mset (keptPoints env key n (g # gs)) + mset (droppedPoints env key n (g # gs)) =
        (mset (keptMembers env key n g) + mset (droppedMembers env key n g)) +
        (mset (keptPoints env key (Suc n) gs) + mset (droppedPoints env key (Suc n) gs))"
    by (simp add: ac_simps)
  then show ?case by (simp add: kept_dropped_members Cons.IH)
qed

lemma dateFnsFormat_examples:
  "dateFnsFormat 0 ''2024-01-05T12:00:00Z'' ''yyyyMMdd'' = Some ''20240105''"
  "dateFnsFormat 0 ''2024-01-05T12:00:00Z'' ''yyyy-MM-dd'' = Some ''2024-01-05''"
  "dateFnsFormat 0 ''2024-01-06T12:00:00Z'' ''yyyyMMdd'' = Some ''20240106''"
  "dateFnsFormat 0 ''2024-01-06T12:00:00Z'' ''yyyy-MM-dd'' = Some ''2024-01-06''"
  "dateFnsFormat 0 ''2024-01-07T12:00:00Z'' ''yyyyMMdd'' = Some ''20240107''"
  "dateFnsFormat 0 ''2024-01-07T12:00:00Z'' ''yyyy-MM-dd'' = Some ''2024-01-07''"
  by code_simp+

lemma parseInt_examples:
  "parseInt ''20240105'' = Some 20240105"
  "parseInt ''20240106'' = Some 20240106"
  "parseInt ''20240107'' = Some 20240107"
  by (simp_all add: parseInt_def isDigit_def)

lemma near_ABD:
  "\<not> near [pointA, pointB, pointD] (1 / 10) 0 (Suc 0)"
  "near [pointA, pointB, pointD] (1 / 10) 0 (Suc (Suc 0))"
  unfolding near_def calculateDistance_less_iff
  by (simp_all add: pointA_def pointB_def pointD_def power2_eq_square)

lemma groups_ABD:
  "groupPointsByProximity [pointA, pointB, pointD] 0.1 = [[pointA, pointD], [pointB]]"
proof -
  have "groupIndicesByProximity [pointA, pointB, pointD] 0.1 = [[0, 2], [1]]"
    unfolding groupIndicesByProximity_def
    by (simp add: seedStep_eq members_def upt_rec near_ABD)
  then show ?thesis by (simp add: groupPointsByProximity_def)
qed

lemma keys_ABD:
  "utcKey pointA = ''20240105''" "utcKey pointB = ''20240106''" "utcKey pointD = ''20240107''"
  "utcDay pointA = ''2024-01-05''" "utcDay pointB = ''2024-01-06''"
  "utcDay pointD = ''2024-01-07''"
  by (simp_all add: utcKey_def utcDay_def pointA_def pointB_def pointD_def
      dateFnsFormat_examples)

lemma kept_ABD:
  "keptPoints patchyEnv utcKey 0 [[pointA, pointD], [pointB]] = [pointA, pointB]"
  "droppedPoints patchyEnv utcKey 0 [[pointA, pointD], [pointB]] = [pointD]"
  by (simp_all add: keptMembers_def droppedMembers_def answer_def patchyEnv_def
      patchyFetch_def groupUrl_def Let_def keys_ABD parseInt_examples mathMin_def mathMax_def
      hasT2M_def lookupSeries_def)

lemma groupPointsByProximity_single: "groupPointsByProximity [p] t = [[p]]"
  by (simp add: groupPointsByProximity_def groupIndicesByProximity_def seedStep_def)

lemma fetchClimateData_emptyResponse:
  "fetchClimateData emptyResponseEnv [pointA] initialWorld =
     (Inr [], \<lparr>apiCalls = [Url 0 0 (Some 20240105) (Some 20240105)], randomDraws = 0\<rparr>)"
  by (simp add: fetchClimateData_def groupPointsByProximity_single resolveGroup_def
      tryGroup_def calculateCenterPoint_def callNASAPowerAPI_def emptyResponseEnv_def
      pointA_def initialWorld_def lookupSeries_def mathMin_def mathMax_def
      parseInt_examples dateFnsFormat_examples)

lemma fetchClimateData_frost:
  "fst (fetchClimateData frostEnv [pointA] initialWorld) =
     Inr [\<lparr>latitude = 0, longitude = 0, date = ''2024-01-05'', temperature = - 3,
           maxTemperature = 2, solarRadiation = 200, humidity = 50, uvIndex = 0\<rparr>]"
  by (simp add: fetchClimateData_def groupPointsByProximity_single resolveGroup_def
      tryGroup_def calculateCenterPoint_def callNASAPowerAPI_def frostEnv_def
      pointA_def initialWorld_def lookupSeries_def mathMin_def mathMax_def
      parseInt_examples dateFnsFormat_examples
      frostResponse_def climateRecord_def orElse_def calculateUVIndex_def)

text \<open>
  Claim C1, as stated, is false: where the response of a successful request holds no
  air temperature for the date of a point, \<open>fetchClimateData\<close> pushes no record for
  that point. With one input point and such a response the output is empty.
\<close>

theorem fetchClimateData_drops_point_counterexample:
  "\<not> (\<exists>results w'.
        fetchClimateData emptyResponseEnv [pointA] initialWorld = (Inr results, w') \<and>
        length results = length [pointA])"
  by (simp add: fetchClimateData_emptyResponse)

text \<open>
  Claim C1, amended: for every list of input points whose timestamps are valid dates
  (\<open>key p\<close> and \<open>day p\<close> the two formatted dates of \<open>p\<close>), \<open>fetchClimateData\<close>
  returns, after one request per cluster, exactly one record for every input point
  except the members of a cluster whose request succeeded with a response that holds no
  air temperature for their date; those get none. The records are, by date and
  coordinates and in this order, those of the kept points; the kept points and the
  dropped points together are the input points, each once; so the output and the dropped
  points together are as many as the input, and the output has the length of the input
  exactly when no point is dropped. The order of the output is that of the clusters,
  not that of the input.
\<close>

theorem fetchClimateData_one_record_per_kept_point:
  assumes "\<forall>p \<in> set gpsPoints.
             formatDate env (timestamp p) ''yyyyMMdd'' = Some (key p) \<and>
             formatDate env (timestamp p) ''yyyy-MM-dd'' = Some (day p)"
  shows "\<exists>results w'.
           fetchClimateData env gpsPoints w = (Inr results, w') \<and>
           map recordTag results =
             map (pointTag day)
               (keptPoints env key (length (apiCalls w))
                  (groupPointsByProximity gpsPoints 0.1)) \<and>
           mset (keptPoints env key (length (apiCalls w))
                   (groupPointsByProximity gpsPoints 0.1)) +
           mset (droppedPoints env key (length (apiCalls w))
                   (groupPointsByProximity gpsPoints 0.1)) = mset gpsPoints \<and>
           length results +
           length (droppedPoints env key (length (apiCalls w))
                     (groupPointsByProximity gpsPoints 0.1)) = length gpsPoints \<and>
           apiCalls w' =
             apiCalls w @ map (groupUrl key) (groupPointsByProximity gpsPoints 0.1)"
proof -
  let ?gs = "groupPointsByProximity gpsPoints 0.1"
  let ?kept = "keptPoints env key (length (apiCalls w)) ?gs"
  let ?dropped = "droppedPoints env key (length (apiCalls w)) ?gs"
  have m: "mset (concat ?gs) = mset gpsPoints" by (rule groupPoints_mset)
  then have s: "set (concat ?gs) = set gpsPoints" by (rule mset_eq_setD)
  have v: "\<forall>p \<in> set (concat ?gs).
             formatDate env (timestamp p) ''yyyyMMdd'' = Some (key p) \<and>
             formatDate env (timestamp p) ''yyyy-MM-dd'' = Some (day p)"
    using assms unfolding s .
  from resolveGroups_kept [OF v, of "[]" w] obtain recs w' where
    r: "resolveGroups env ?gs ([], w) = (None, recs, w')"
    and tags: "map recordTag recs = map (pointTag day) ?kept"
    and calls: "apiCalls w' = apiCalls w @ map (groupUrl key) ?gs"
    by auto
  have f: "fetchClimateData env gpsPoints w = (Inr recs, w')"
    using r by (simp add: fetchClimateData_def)
  have split: "mset ?kept + mset ?dropped = mset gpsPoints"
    using kept_dropped_points [of env key "length (apiCalls w)" ?gs] m by simp
  from tags have "length recs = length ?kept"
    by (metis length_map)
  moreover from split have "size (mset ?kept + mset ?dropped) = size (mset gpsPoints)"
    by simp
  ultimately have len: "length recs + length ?dropped = length gpsPoints"
    by simp
  from f tags split len calls show ?thesis by blast
qed

theorem fetchClimateData_one_record_per_kept_point_witness:
  "\<exists>results w'.
     fetchClimateData patchyEnv [pointA, pointB, pointD] initialWorld = (Inr results, w') \<and>
     map recordTag results = [(''2024-01-05'', 0, 0), (''2024-01-06'', 2, 0)] \<and>
     droppedPoints patchyEnv utcKey 0 (groupPointsByProximity [pointA, pointB, pointD] 0.1) =
       [pointD] \<and>
     length results + 1 = length [pointA, pointB, pointD] \<and>
     length (apiCalls w') = 2"
proof -
  have valid: "\<forall>p \<in> set [pointA, pointB, pointD].
      formatDate patchyEnv (timestamp p) ''yyyyMMdd'' = Some (utcKey p) \<and>
      formatDate patchyEnv (timestamp p) ''yyyy-MM-dd'' = Some (utcDay p)"
    by (simp add: patchyEnv_def utcKey_def utcDay_def pointA_def pointB_def pointD_def
        dateFnsFormat_examples)
  have tags: "map (pointTag utcDay) [pointA, pointB] =
      [(''2024-01-05'', 0, 0), (''2024-01-06'', 2, 0)]"
    by (simp add: pointTag_def keys_ABD) (simp add: pointA_def pointB_def)
  have n0: "length (apiCalls initialWorld) = 0" by (simp add: initialWorld_def)
  note t = fetchClimateData_one_record_per_kept_point [OF valid, of initialWorld, unfolded groups_ABD n0 kept_ABD]
  from t obtain results w' where
    f: "fetchClimateData patchyEnv [pointA, pointB, pointD] initialWorld = (Inr results, w')"
    and r: "map recordTag results = map (pointTag utcDay) [pointA, pointB]"
    and l: "length results + length [pointD] = length [pointA, pointB, pointD]"
    and c: "apiCalls w' = apiCalls initialWorld @
       map (groupUrl utcKey) [[pointA, pointD], [pointB]]"
    by blast
  from c have "length (apiCalls w') = 2" by (simp add: initialWorld_def)
  with f r l tags show ?thesis
    unfolding groups_ABD kept_ABD by auto
qed

text \<open>
  The same run, evaluated: the first cluster is answered, its member without an air
  temperature gets no record; the second request fails, and its member gets the
  synthetic record (every random number drawn is 1/2 here).
\<close>

lemma fetchClimateData_patchy:
  "fst (fetchClimateData patchyEnv [pointA, pointB, pointD] initialWorld) =
     Inr [\<lparr>latitude = 0, longitude = 0, date = ''2024-01-05'', temperature = 25,
           maxTemperature = 30, solarRadiation = 200, humidity = 50, uvIndex = 0\<rparr>,
          \<lparr>latitude = 2, longitude = 0, date = ''2024-01-06'', temperature = 32.5,
           maxTemperature = 40, solarRadiation = 300, humidity = 55, uvIndex = 6\<rparr>]"
  unfolding groups_ABD fetchClimateData_def
  by (simp add: resolveGroup_def tryGroup_def calculateCenterPoint_def
      callNASAPowerAPI_def patchyEnv_def patchyFetch_def generateMockClimateData_def
      pointA_def pointB_def pointD_def initialWorld_def lookupSeries_def mathMin_def
      mathMax_def parseInt_examples dateFnsFormat_examples climateRecord_def orElse_def
      calculateUVIndex_def Let_def)

subsection \<open>Secondary parameters\<close>

text \<open>
  What the pushed record holds: a secondary parameter is the response value if that is
  present and not zero, and the default otherwise.
\<close>

lemma climateRecord_secondary:
  "temperature (climateRecord dayData dateKey d point t2m) = t2m \<and>
   maxTemperature (climateRecord dayData dateKey d point t2m) =
     (case lookupSeries dayData ''T2M_MAX'' dateKey of
        None \<Rightarrow> t2m + 5 | Some x \<Rightarrow> if x = 0 then t2m + 5 else x) \<and>
   solarRadiation (climateRecord dayData dateKey d point t2m) =
     (case lookupSeries dayData ''ALLSKY_SFC_SW_DWN'' dateKey of
        None \<Rightarrow> 200 | Some x \<Rightarrow> if x = 0 then 200 else x) \<and>
   humidity (climateRecord dayData dateKey d point t2m) =
     (case lookupSeries dayData ''RH2M'' dateKey of
        None \<Rightarrow> 50 | Some x \<Rightarrow> if x = 0 then 50 else x)"
  by (simp add: climateRecord_def orElse_def)

text \<open>
  Claim C2 does not hold of the code: a response value that is present and equal to 0
  is replaced by the default. With an air temperature of -3 and a maximum temperature of
  0 in the response for the point's date, the record holds the maximum temperature 2
  (the air temperature plus 5), not the 0 of the response.
\<close>

theorem fetchClimateData_zero_replaced_by_default:
  "lookupSeries frostResponse ''T2M'' ''20240105'' = Some (- 3) \<and>
   lookupSeries frostResponse ''T2M_MAX'' ''20240105'' = Some 0 \<and>
   fst (fetchClimateData frostEnv [pointA] initialWorld) =
     Inr [\<lparr>latitude = 0, longitude = 0, date = ''2024-01-05'', temperature = - 3,
           maxTemperature = 2, solarRadiation = 200, humidity = 50, uvIndex = 0\<rparr>]"
  by (simp add: fetchClimateData_frost) (simp add: frostResponse_def lookupSeries_def)

section \<open>Properties of the application state\<close>

lemma length_processClimateData:
  "length (processClimateData climate properties) = length climate"
  by (simp add: processClimateData_def)

lemma handleConfigChange_frame:
  "snd (handleConfigChange newConfig sw) = snd sw \<and>
   climateData (fst (handleConfigChange newConfig sw)) = climateData (fst sw) \<and>
   gpsData (fst (handleConfigChange newConfig sw)) = gpsData (fst sw) \<and>
   config (fst (handleConfigChange newConfig sw)) = newConfig \<and>
   analysisResults (fst (handleConfigChange newConfig sw)) =
     (if climateData (fst sw) = [] then analysisResults (fst sw)
      else processClimateData (climateData (fst sw)) (surfaceProperties newConfig))"
  by (cases sw) (simp add: handleConfigChange_def Let_def)

lemma handleConfigChange_resultsMatch:
  "resultsMatch sw \<Longrightarrow> resultsMatch (handleConfigChange newConfig sw)"
  using handleConfigChange_frame [of newConfig sw]
  by (simp add: resultsMatch_def length_processClimateData)

lemma handleFileSelect_resultsMatch:
  "resultsMatch sw \<Longrightarrow> resultsMatch (handleFileSelect env file sw)"
  by (cases sw)
    (auto simp: resultsMatch_def handleFileSelect_def Let_def length_processClimateData
      split: ParsedFile.splits sum.splits prod.splits)

lemma run_resultsMatch: "resultsMatch (run env today events)"
proof -
  have "resultsMatch (fold (handleEvent env) events sw)" if "resultsMatch sw" for sw
    using that
  proof (induction events arbitrary: sw)
    case Nil
    then show ?case by simp
  next
    case (Cons ev events)
    have "resultsMatch (handleEvent env ev sw)"
      using Cons.prems
      by (cases ev) (simp_all add: handleConfigChange_resultsMatch handleFileSelect_resultsMatch)
    then show ?case using Cons.IH by simp
  qed
  moreover have "resultsMatch (initialState today, initialWorld)"
    by (simp add: resultsMatch_def initialState_def)
  ultimately show ?thesis by (simp add: run_def)
qed


text \<open>
  Claim C8: in every state the application can reach, a change of the configuration
  sends no request and draws no random number (the world is unchanged), leaves the
  stored climate records unchanged, and sets the analysis results to
  \<open>processClimateData\<close> of the stored records under the new surface properties, a list
  as long as the stored records.
\<close>

theorem handleConfigChange_reanalysis:
  "snd (handleConfigChange newConfig (run env today events)) = snd (run env today events) \<and>
   climateData (fst (handleConfigChange newConfig (run env today events))) =
     climateData (fst (run env today events)) \<and>
   analysisResults (fst (handleConfigChange newConfig (run env today events))) =
     processClimateData (climateData (fst (run env today events)))
       (surfaceProperties newConfig) \<and>
   length (analysisResults (fst (handleConfigChange newConfig (run env today events)))) =
     length (climateData (fst (run env today events)))"
proof -
  let ?sw = "run env today events"
  have m: "length (analysisResults (fst ?sw)) = length (climateData (fst ?sw))"
    using run_resultsMatch [of env today events] by (simp add: resultsMatch_def)
  have "analysisResults (fst (handleConfigChange newConfig ?sw)) =
     processClimateData (climateData (fst ?sw)) (surfaceProperties newConfig)"
  proof (cases "climateData (fst ?sw) = []")
    case True
    with m have "analysisResults (fst ?sw) = []" by simp
    with True show ?thesis
      using handleConfigChange_frame [of newConfig ?sw] by (simp add: processClimateData_def)
  next
    case False
    then show ?thesis using handleConfigChange_frame [of newConfig ?sw] by simp
  qed
  then show ?thesis
    using handleConfigChange_frame [of newConfig ?sw]
    by (simp add: length_processClimateData)
qed

text \<open>A file selection, for comparison, does send a request.\<close>

lemma run_example:
  "apiCalls (snd (run frostEnv ''2024-02-01'' [FileSelect (ParsedPoints [pointA])])) =
     [Url 0 0 (Some 20240105) (Some 20240105)]"
  by (simp add: run_def handleFileSelect_def aggregateByDay_def dailyPoint_def
      fetchClimateData_def groupPointsByProximity_single resolveGroup_def tryGroup_def
      calculateCenterPoint_def callNASAPowerAPI_def frostEnv_def dateFnsFormat_examples
      pointA_def initialWorld_def initialState_def lookupSeries_def mathMin_def mathMax_def
      parseInt_examples
      frostResponse_def climateRecord_def orElse_def calculateUVIndex_def Let_def)

end
